theory Spec2Isabelle
  imports Main "HOL-Library.AList"
begin

section \<open>Values and errors\<close>

text \<open>
  Filters, operands, column defaults and payloads are JavaScript values. Numbers are
  modelled as integers (no fractions, no NaN); an object is the list of its entries in
  the order \<^verbatim>\<open>Object.entries\<close> enumerates them. A property that JavaScript
  would find on a prototype is not modelled: an object has the properties of its entries.
\<close>

datatype json =
    JUndefined
  | JNull
  | JBool bool
  | JNum int
  | JStr string
  | JArr "json list"
  | JObj "(string \<times> json) list"

text \<open>
  The exceptions of \<^verbatim>\<open>../exceptions\<close> that the three files throw, and the
  run-time errors of JavaScript: \<^verbatim>\<open>TypeError\<close> (a property read on
  \<^verbatim>\<open>undefined\<close> or \<^verbatim>\<open>null\<close>, a call of a method that is not there)
  and \<^verbatim>\<open>ReferenceError\<close> (a read of a name that no enclosing scope declares).
  \<^verbatim>\<open>ScopeRequired\<close> is the message "You have to provide a collection scope when
  filtering on a many-to-any item"; \<^verbatim>\<open>NotRelational c f\<close> is the message
  "c.f is not a relational field".
\<close>

datatype query_message = ScopeRequired | NotRelational string string

datatype error =
    InvalidQueryException query_message
  | ForbiddenException
  | InvalidPayloadException string
  | TypeError
  | ReferenceError

definition bindE :: "error + 'a \<Rightarrow> ('a \<Rightarrow> error + 'b) \<Rightarrow> error + 'b" where
  "bindE r f = (case r of Inl e \<Rightarrow> Inl e | Inr x \<Rightarrow> f x)"

text \<open>A \<^verbatim>\<open>for\<close> loop or \<^verbatim>\<open>forEach\<close> whose body may throw.\<close>

fun foldE :: "('a \<Rightarrow> 's \<Rightarrow> error + 's) \<Rightarrow> 'a list \<Rightarrow> 's \<Rightarrow> error + 's" where
  "foldE f [] s = Inr s"
| "foldE f (x # xs) s = (case f x s of Inl e \<Rightarrow> Inl e | Inr s' \<Rightarrow> foldE f xs s')"

text \<open>A result that is not the exception \<^verbatim>\<open>Forbidden\<close>.\<close>

definition no_forbidden :: "error + 'a \<Rightarrow> bool" where
  "no_forbidden r = (r \<noteq> Inl ForbiddenException)"

text \<open>JavaScript truthiness.\<close>

fun truthy :: "json \<Rightarrow> bool" where
  "truthy JUndefined = False"
| "truthy JNull = False"
| "truthy (JBool b) = b"
| "truthy (JNum n) = (n \<noteq> 0)"
| "truthy (JStr s) = (s \<noteq> [])"
| "truthy (JArr xs) = True"
| "truthy (JObj kvs) = True"

definition digit_char :: "nat \<Rightarrow> char" where
  "digit_char d = ''0123456789'' ! d"

fun string_of_nat :: "nat \<Rightarrow> string" where
  "string_of_nat n =
     (if n < 10 then [digit_char n] else string_of_nat (n div 10) @ [digit_char (n mod 10)])"

text \<open>
  \<^verbatim>\<open>Object.entries(v)\<close>: the entries of an object; the indexed elements of an array
  and the indexed characters of a string; nothing for a number or a boolean; a
  \<^verbatim>\<open>TypeError\<close> for \<^verbatim>\<open>null\<close> and \<^verbatim>\<open>undefined\<close>.
\<close>

definition indexed :: "'a list \<Rightarrow> (string \<times> 'a) list" where
  "indexed xs = zip (map string_of_nat [0..<length xs]) xs"

fun entries :: "json \<Rightarrow> error + (string \<times> json) list" where
  "entries JUndefined = Inl TypeError"
| "entries JNull = Inl TypeError"
| "entries (JBool b) = Inr []"
| "entries (JNum n) = Inr []"
| "entries (JStr s) = Inr (indexed (map (\<lambda>c. JStr [c]) s))"
| "entries (JArr xs) = Inr (indexed xs)"
| "entries (JObj kvs) = Inr kvs"

definition startsWith_underscore :: "string \<Rightarrow> bool" where
  "startsWith_underscore k = (case k of [] \<Rightarrow> False | c # _ \<Rightarrow> c = CHR ''_'')"

text \<open>\<^verbatim>\<open>s.split(c)\<close>: never empty; \<^verbatim>\<open>''''.split(c)\<close> is \<^verbatim>\<open>['''']\<close>.\<close>

fun split_on :: "char \<Rightarrow> string \<Rightarrow> string list" where
  "split_on c [] = [[]]"
| "split_on c (x # xs) =
     (if x = c then [] # split_on c xs
      else (case split_on c xs of [] \<Rightarrow> [[x]] | y # ys \<Rightarrow> (x # y) # ys))"

text \<open>\<^verbatim>\<open>part.split(':')[0]\<close> and \<^verbatim>\<open>part.split(':')[1]\<close> (undefined when absent).\<close>

definition path_root :: "string \<Rightarrow> string" where
  "path_root p = (case split_on CHR '':'' p of [] \<Rightarrow> p | r # _ \<Rightarrow> r)"

definition path_scope :: "string \<Rightarrow> string option" where
  "path_scope p = (case split_on CHR '':'' p of _ # sc # _ \<Rightarrow> Some sc | _ \<Rightarrow> None)"

section \<open>Schema and relations\<close>

record relation_meta =
  one_field :: "string option"
  one_collection_field :: "string option"
  one_allowed_collections :: "string list option"
  one_deselect_action :: "string option"

record relation =
  rel_collection :: string
  rel_field :: string
  rel_related_collection :: "string option"
  rel_meta :: "relation_meta option"

record collection_overview =
  primary :: string
  coll_fields :: "(string \<times> string) list"

record schema_overview =
  collections :: "string \<rightharpoonup> collection_overview"
  relations :: "relation list"

datatype relation_type = M2O | O2M | M2A

text \<open>
  \<^verbatim>\<open>relation.meta?.one_field === pathRoot\<close>: false when the relation has no
  \<^verbatim>\<open>meta\<close>.
\<close>

definition meta_one_field :: "relation \<Rightarrow> string option" where
  "meta_one_field r = (case rel_meta r of None \<Rightarrow> None | Some m \<Rightarrow> one_field m)"

text \<open>
  The predicate of the three \<^verbatim>\<open>relations.find\<close> calls. The collection is a string
  in the signatures, but \<^verbatim>\<open>relation.related_collection!\<close> passes
  \<^verbatim>\<open>null\<close> on when a relation has no related collection, so it is an option
  here (\<^verbatim>\<open>None\<close> is \<^verbatim>\<open>null\<close>).
\<close>

definition relation_matches :: "string option \<Rightarrow> string \<Rightarrow> relation \<Rightarrow> bool" where
  "relation_matches collection pathRoot r =
     ((Some (rel_collection r) = collection \<and> rel_field r = pathRoot) \<or>
      (rel_related_collection r = collection \<and> meta_one_field r = Some pathRoot))"

definition find_relation :: "relation list \<Rightarrow> string option \<Rightarrow> string \<Rightarrow> relation option" where
  "find_relation rs collection pathRoot = find (relation_matches collection pathRoot) rs"

text \<open>
  Modelled from the spec: \<^verbatim>\<open>getRelationType\<close> of \<^verbatim>\<open>./get-relation-type\<close>,
  which is not among the source files. The spec's \<^verbatim>\<open>classify\<close>: many-to-any if
  the matched relation has \<^verbatim>\<open>one_allowed_collections\<close>; many-to-one if
  \<^verbatim>\<open>relation.collection == contextCollection && relation.field == field\<close>;
  one-to-many if \<^verbatim>\<open>relation.related_collection == contextCollection &&
  relation.meta.one_field == field\<close>. \<^verbatim>\<open>None\<close> is the \<^verbatim>\<open>null\<close> the
  callers compare the result with.
\<close>

definition getRelationType :: "relation \<Rightarrow> string option \<Rightarrow> string \<Rightarrow> relation_type option" where
  "getRelationType r collection fld =
     (if (case rel_meta r of None \<Rightarrow> False | Some m \<Rightarrow> one_allowed_collections m \<noteq> None)
        then Some M2A
      else if Some (rel_collection r) = collection \<and> rel_field r = fld then Some M2O
      else if rel_related_collection r = collection \<and> meta_one_field r = Some fld then Some O2M
      else None)"

section \<open>Filter paths and operations\<close>

text \<open>
  \<^verbatim>\<open>getFilterPath\<close>: \<^verbatim>\<open>Object.keys(value)\<close> throws on \<^verbatim>\<open>null\<close> and
  \<^verbatim>\<open>undefined\<close>; on the empty object the recursive call is
  \<^verbatim>\<open>getFilterPath(undefined, undefined)\<close>, which throws the same way. The first
  key of a string or an array is an index, which does not start with an underscore, and
  neither is a plain object.
\<close>

fun getFilterPath :: "string \<Rightarrow> json \<Rightarrow> error + string list" where
  "getFilterPath key JUndefined = Inl TypeError"
| "getFilterPath key JNull = Inl TypeError"
| "getFilterPath key (JObj []) = Inl TypeError"
| "getFilterPath key (JObj ((k, v) # kvs)) =
     (if startsWith_underscore k then Inr [key]
      else bindE (getFilterPath k v) (\<lambda>path. Inr (key # path)))"
| "getFilterPath key v = Inr [key]"

text \<open>
  \<^verbatim>\<open>getOperation\<close>: on the empty object the recursive call is
  \<^verbatim>\<open>getOperation(undefined, undefined)\<close>, whose \<^verbatim>\<open>key.startsWith\<close> throws.
\<close>

fun getOperation :: "string \<Rightarrow> json \<Rightarrow> error + (string \<times> json)" where
  "getOperation key v =
     (if startsWith_underscore key \<and> key \<noteq> ''_and'' \<and> key \<noteq> ''_or'' then Inr (key, v)
      else (case v of
              JObj [] \<Rightarrow> Inl TypeError
            | JObj ((k, v') # kvs) \<Rightarrow> getOperation k v'
            | _ \<Rightarrow> Inr (''_eq'', v)))"

section \<open>The query builder\<close>

text \<open>
  The Knex query builder is a collaborator: the code only calls its methods. The model
  keeps what the calls leave in the builder: the selected columns, the table, the
  order, the limit and the offset (each call of \<^verbatim>\<open>limit\<close> and \<^verbatim>\<open>offset\<close>
  replaces the value before), the joins and the where statements in the order of the
  calls. \<^verbatim>\<open>dbQuery[logical]\<close> tags the statement that follows with
  \<^verbatim>\<open>and\<close> or \<^verbatim>\<open>or\<close>. What Knex itself makes of an argument (its own
  checks, the SQL it prints) is outside the model.
\<close>

datatype logical = LAnd | LOr

text \<open>
  \<^verbatim>\<open>LeftJoin alias table first second\<close> is
  \<^verbatim>\<open>leftJoin({[alias]: table}, first, second)\<close>;
  \<^verbatim>\<open>LeftJoinOnVal alias table first second column scope\<close> is the join of a
  many-to-any hop, \<^verbatim>\<open>on(first, '=', second).andOnVal(column, '=', scope)\<close>;
  Knex calls the callback of \<^verbatim>\<open>leftJoin\<close> at once, so what it throws is thrown
  by \<^verbatim>\<open>leftJoin\<close>.
\<close>

datatype join_clause =
    LeftJoin string "string option" string string
  | LeftJoinOnVal string string string string "string option" string

text \<open>
  One constructor for each builder method the operators call.
  \<^verbatim>\<open>WhereOp k op v\<close> is \<^verbatim>\<open>where(k, op, v)\<close>, \<^verbatim>\<open>WhereObj k v\<close> is
  \<^verbatim>\<open>where({[k]: v})\<close>, \<^verbatim>\<open>WhereLike k pre v post\<close> is
  \<^verbatim>\<open>where(k, 'like', `pre${v}post`)\<close> and \<^verbatim>\<open>WhereRawBindings sql bs\<close> is
  \<^verbatim>\<open>whereRaw(sql, bs)\<close>.
\<close>

datatype predicate =
    WhereNull string
  | WhereNotNull string
  | WhereOp string string json
  | WhereNotOp string string json
  | WhereObj string json
  | WhereNotObj string json
  | WhereLike string string json string
  | WhereNotLike string string json string
  | WhereIn string "json list"
  | WhereNotIn string "json list"
  | WhereBetween string "json list"
  | WhereNotBetween string "json list"
  | WhereRawBindings string "string list"

text \<open>
  Knex does not call the callback of \<^verbatim>\<open>where(callback)\<close> and of
  \<^verbatim>\<open>whereIn(column, callback)\<close> until it runs the query. A statement built by a
  callback therefore holds what the callback does when Knex calls it: the statements it
  adds to its own builder, or the exception it throws then.
\<close>

datatype wh =
    Where logical predicate
  | WhereWrapped logical "error + wh list"
  | WhereInSub logical string "error + qb"
and qb =
    QB (qb_select: "(string \<times> string) list") (qb_from: "string option")
       (qb_orderBy: "(string \<times> string) list") (qb_limit: "int option")
       (qb_offset: "int option") (qb_joins: "join_clause list") (qb_wheres: "wh list")

definition empty_qb :: qb where
  "empty_qb = QB [] None [] None None [] []"

definition knex_select :: "(string \<times> string) \<Rightarrow> qb \<Rightarrow> qb" where
  "knex_select c q = (case q of QB s f ob l off js ws \<Rightarrow> QB (s @ [c]) f ob l off js ws)"

definition knex_from :: "string \<Rightarrow> qb \<Rightarrow> qb" where
  "knex_from t q = (case q of QB s f ob l off js ws \<Rightarrow> QB s (Some t) ob l off js ws)"

definition knex_orderBy :: "(string \<times> string) list \<Rightarrow> qb \<Rightarrow> qb" where
  "knex_orderBy cs q = (case q of QB s f ob l off js ws \<Rightarrow> QB s f (ob @ cs) l off js ws)"

definition knex_limit :: "int \<Rightarrow> qb \<Rightarrow> qb" where
  "knex_limit n q = (case q of QB s f ob l off js ws \<Rightarrow> QB s f ob (Some n) off js ws)"

definition knex_offset :: "int \<Rightarrow> qb \<Rightarrow> qb" where
  "knex_offset n q = (case q of QB s f ob l off js ws \<Rightarrow> QB s f ob l (Some n) js ws)"

definition knex_leftJoin :: "join_clause \<Rightarrow> qb \<Rightarrow> qb" where
  "knex_leftJoin j q = (case q of QB s f ob l off js ws \<Rightarrow> QB s f ob l off (js @ [j]) ws)"

definition knex_where :: "wh \<Rightarrow> qb \<Rightarrow> qb" where
  "knex_where w q = (case q of QB s f ob l off js ws \<Rightarrow> QB s f ob l off js (ws @ [w]))"

section \<open>The environment of a compilation\<close>

text \<open>
  What the compiler takes from outside the three files: the schema; the aliases that
  \<^verbatim>\<open>generateAlias\<close> (nanoid, five random lowercase letters) returns, as the
  sequence of its draws; \<^verbatim>\<open>toArray\<close> of the shared utilities; the conversion
  \<^verbatim>\<open>Number(s)\<close> (\<^verbatim>\<open>None\<close> is NaN), \<^verbatim>\<open>uuid-validate\<close> and
  \<^verbatim>\<open>toLowerCase\<close>. \<^verbatim>\<open>getGeometryHelper()\<close>, whose result
  \<^verbatim>\<open>applyFilter\<close> binds to a constant of its own and never reads, is taken to
  return.
\<close>

record env =
  schema :: schema_overview
  generateAlias :: "nat \<Rightarrow> string"
  toArray :: "json \<Rightarrow> json list"
  toNumber :: "string \<Rightarrow> int option"
  validate_uuid :: "string \<Rightarrow> bool"
  toLowerCase :: "string \<Rightarrow> string"

section \<open>The operator table\<close>

text \<open>The first \<^verbatim>\<open>switch\<close> of \<^verbatim>\<open>applyFilterToQuery\<close>: the operators that need no operand.\<close>

definition operator_without_value :: "string \<Rightarrow> string \<Rightarrow> json \<Rightarrow> predicate option" where
  "operator_without_value key operator compareValue =
     (if operator = ''_null'' then
        Some (if compareValue = JBool False then WhereNotNull key else WhereNull key)
      else if operator = ''_nnull'' then
        Some (if compareValue = JBool False then WhereNull key else WhereNotNull key)
      else if operator = ''_empty'' then
        Some (if compareValue = JBool False then WhereNotOp key ''='' (JStr [])
              else WhereOp key ''='' (JStr []))
      else if operator = ''_nempty'' then
        Some (if compareValue = JBool False then WhereOp key ''!='' (JStr [])
              else WhereNotOp key ''!='' (JStr []))
      else None)"

text \<open>
  The second \<^verbatim>\<open>switch\<close>: the operators that need an operand. The four geometry
  cases read \<^verbatim>\<open>geometryHelper\<close>, which is a constant of the body of
  \<^verbatim>\<open>applyFilter\<close> and is not in scope in \<^verbatim>\<open>applyFilterToQuery\<close>, a
  function of the module: the read throws a \<^verbatim>\<open>ReferenceError\<close> before
  \<^verbatim>\<open>whereRaw\<close> is called.
\<close>

definition operator_with_value ::
  "env \<Rightarrow> string \<Rightarrow> string \<Rightarrow> json \<Rightarrow> error + predicate option" where
  "operator_with_value E key operator compareValue =
     (if operator = ''_eq'' then Inr (Some (WhereObj key compareValue))
      else if operator = ''_neq'' then Inr (Some (WhereNotObj key compareValue))
      else if operator = ''_contains'' then Inr (Some (WhereLike key ''%'' compareValue ''%''))
      else if operator = ''_ncontains'' then Inr (Some (WhereNotLike key ''%'' compareValue ''%''))
      else if operator = ''_starts_with'' then Inr (Some (WhereLike key [] compareValue ''%''))
      else if operator = ''_nstarts_with'' then Inr (Some (WhereNotLike key [] compareValue ''%''))
      else if operator = ''_ends_with'' then Inr (Some (WhereLike key ''%'' compareValue []))
      else if operator = ''_nends_with'' then Inr (Some (WhereNotLike key ''%'' compareValue []))
      else if operator = ''_gt'' then Inr (Some (WhereOp key ''>'' compareValue))
      else if operator = ''_gte'' then Inr (Some (WhereOp key ''>='' compareValue))
      else if operator = ''_lt'' then Inr (Some (WhereOp key ''<'' compareValue))
      else if operator = ''_lte'' then Inr (Some (WhereOp key ''<='' compareValue))
      else if operator = ''in'' then Inr (Some (WhereIn key (toArray E compareValue)))
      else if operator = ''nin'' then Inr (Some (WhereNotIn key (toArray E compareValue)))
      else if operator = ''_between'' then Inr (Some (WhereBetween key (toArray E compareValue)))
      else if operator = ''_nbetween'' then Inr (Some (WhereNotBetween key (toArray E compareValue)))
      else if operator = ''_intersects'' then Inl ReferenceError
      else if operator = ''_nintersects'' then Inl ReferenceError
      else if operator = ''_intersects_bbox'' then Inl ReferenceError
      else if operator = ''_nintersects_bbox'' then Inl ReferenceError
      else Inr None)"

text \<open>\<^verbatim>\<open>compareValue.filter((val) => val !== undefined)\<close> when the operand is an array.\<close>

definition remove_undefined :: "json \<Rightarrow> json" where
  "remove_undefined v = (case v of JArr xs \<Rightarrow> JArr (filter (\<lambda>x. x \<noteq> JUndefined) xs) | _ \<Rightarrow> v)"

definition add_predicate :: "logical \<Rightarrow> predicate option \<Rightarrow> qb \<Rightarrow> qb" where
  "add_predicate lg p q = (case p of None \<Rightarrow> q | Some x \<Rightarrow> knex_where (Where lg x) q)"

definition applyFilterToQuery ::
  "env \<Rightarrow> qb \<Rightarrow> string \<Rightarrow> string \<Rightarrow> json \<Rightarrow> logical \<Rightarrow> error + qb" where
  "applyFilterToQuery E query key operator compareValue lg =
     (let query1 = add_predicate lg (operator_without_value key operator compareValue) query
      in if compareValue = JUndefined then Inr query1
         else bindE (operator_with_value E key operator (remove_undefined compareValue))
                (\<lambda>p. Inr (add_predicate lg p query1)))"

section \<open>The alias map\<close>

text \<open>
  \<^verbatim>\<open>aliasMap\<close> is a nested object that lodash's \<^verbatim>\<open>set\<close> and
  \<^verbatim>\<open>get\<close> address by a path of keys. \<^verbatim>\<open>set\<close> keeps an object it
  finds on the way and puts a new object where it finds anything else; \<^verbatim>\<open>get\<close>
  is \<^verbatim>\<open>undefined\<close> when the path leaves the objects. (Keys that JavaScript
  resolves on a prototype or on a string, and lodash's array for an index key, are
  outside the model.)
\<close>

datatype aval = AStr string | AObj "(string \<times> aval) list"

fun lodash_set :: "(string \<times> aval) list \<Rightarrow> string list \<Rightarrow> string \<Rightarrow> (string \<times> aval) list" where
  "lodash_set obj [] v = obj"
| "lodash_set obj [k] v = AList.update k (AStr v) obj"
| "lodash_set obj (k # k' # ks) v =
     AList.update k
       (AObj (lodash_set (case map_of obj k of Some (AObj child) \<Rightarrow> child | _ \<Rightarrow> []) (k' # ks) v))
       obj"

fun lodash_get :: "(string \<times> aval) list \<Rightarrow> string list \<Rightarrow> aval option" where
  "lodash_get obj [] = None"
| "lodash_get obj [k] = map_of obj k"
| "lodash_get obj (k # k' # ks) =
     (case map_of obj k of Some (AObj child) \<Rightarrow> lodash_get child (k' # ks) | _ \<Rightarrow> None)"

text \<open>An alias read back from the map, as a string (also as the next key).\<close>

definition alias_string :: "aval \<Rightarrow> string" where
  "alias_string a = (case a of AStr s \<Rightarrow> s | AObj _ \<Rightarrow> ''[object Object]'')"

text \<open>\<^verbatim>\<open>`${c}`\<close> for a collection that may be \<^verbatim>\<open>null\<close>, also as a property key.\<close>

definition collection_string :: "string option \<Rightarrow> string" where
  "collection_string c = (case c of None \<Rightarrow> ''null'' | Some s \<Rightarrow> s)"

text \<open>\<^verbatim>\<open>`${x}.${y}`\<close>\<close>

definition dotted :: "string \<Rightarrow> string \<Rightarrow> string" where
  "dotted x y = x @ ''.'' @ y"

text \<open>\<^verbatim>\<open>schema.collections[c].primary\<close>\<close>

definition primary_of :: "env \<Rightarrow> string option \<Rightarrow> error + string" where
  "primary_of E c =
     (case collections (schema E) (collection_string c) of
        None \<Rightarrow> Inl TypeError
      | Some info \<Rightarrow> Inr (primary info))"

section \<open>The join planner\<close>

text \<open>
  The state of one \<^verbatim>\<open>applyFilter\<close> pass: the builder it mutates, its
  \<^verbatim>\<open>aliasMap\<close>, and how many aliases have been drawn so far.
\<close>

record pass_state =
  builder :: qb
  aliasMap :: "(string \<times> aval) list"
  drawn :: nat

definition leftJoin :: "join_clause \<Rightarrow> pass_state \<Rightarrow> pass_state" where
  "leftJoin j st = st\<lparr>builder := knex_leftJoin j (builder st)\<rparr>"

text \<open>\<^verbatim>\<open>parentAlias || parentCollection\<close>\<close>

definition alias_or_collection :: "string option \<Rightarrow> string option \<Rightarrow> string" where
  "alias_or_collection parentAlias parentCollection =
     (case parentAlias of
        None \<Rightarrow> collection_string parentCollection
      | Some a \<Rightarrow> if a = [] then collection_string parentCollection else a)"

text \<open>\<^verbatim>\<open>parentAlias ? [parentAlias, ...pathParts] : pathParts\<close>\<close>

definition alias_path :: "string option \<Rightarrow> string list \<Rightarrow> string list" where
  "alias_path parentAlias pathParts =
     (case parentAlias of
        None \<Rightarrow> pathParts
      | Some a \<Rightarrow> if a = [] then pathParts else a # pathParts)"

text \<open>The three \<^verbatim>\<open>if (relationType === ...)\<close> blocks of \<^verbatim>\<open>followRelation\<close> that join.\<close>

definition join_m2o ::
  "env \<Rightarrow> relation \<Rightarrow> string option \<Rightarrow> string option \<Rightarrow> string \<Rightarrow> pass_state \<Rightarrow> error + pass_state" where
  "join_m2o E r parentCollection parentAlias alias st =
     bindE (primary_of E (rel_related_collection r)) (\<lambda>pk.
       Inr (leftJoin
              (LeftJoin alias (rel_related_collection r)
                 (dotted (alias_or_collection parentAlias parentCollection) (rel_field r))
                 (dotted alias pk)) st))"

definition join_m2a ::
  "env \<Rightarrow> relation \<Rightarrow> string \<Rightarrow> string option \<Rightarrow> string option \<Rightarrow> string \<Rightarrow> pass_state
     \<Rightarrow> error + pass_state" where
  "join_m2a E r part parentCollection parentAlias alias st =
     (case path_scope part of
        None \<Rightarrow> Inl (InvalidQueryException ScopeRequired)
      | Some pathScope \<Rightarrow>
          if pathScope = [] then Inl (InvalidQueryException ScopeRequired)
          else bindE (primary_of E (Some pathScope)) (\<lambda>pk.
                 (case rel_meta r of
                    None \<Rightarrow> Inl TypeError
                  | Some m \<Rightarrow>
                      Inr (leftJoin
                             (LeftJoinOnVal alias pathScope
                                (dotted (alias_or_collection parentAlias parentCollection) (rel_field r))
                                (dotted alias pk) (one_collection_field m) pathScope) st))))"

definition join_o2m ::
  "env \<Rightarrow> relation \<Rightarrow> string option \<Rightarrow> string option \<Rightarrow> string \<Rightarrow> pass_state \<Rightarrow> error + pass_state" where
  "join_o2m E r parentCollection parentAlias alias st =
     bindE (primary_of E (rel_related_collection r)) (\<lambda>pk.
       Inr (leftJoin
              (LeftJoin alias (Some (rel_collection r))
                 (dotted (alias_or_collection parentAlias parentCollection) pk)
                 (dotted alias (rel_field r))) st))"

text \<open>
  The collection the rest of the path starts from: \<^verbatim>\<open>parent\<close> in
  \<^verbatim>\<open>followRelation\<close> and in \<^verbatim>\<open>getWhereColumn\<close>.
\<close>

definition parent_of :: "relation \<Rightarrow> relation_type option \<Rightarrow> string \<Rightarrow> error + string option" where
  "parent_of r relationType part =
     (if relationType = Some M2O then Inr (rel_related_collection r)
      else if relationType = Some M2A then
        (case path_scope part of
           None \<Rightarrow> Inl (InvalidQueryException ScopeRequired)
         | Some pathScope \<Rightarrow>
             if pathScope = [] then Inl (InvalidQueryException ScopeRequired)
             else Inr (Some pathScope))
      else Inr (Some (rel_collection r)))"

text \<open>
  \<^verbatim>\<open>followRelation\<close>. Every call that finds a relation draws a new alias and
  records it under the path, before it decides whether to join.
\<close>

fun followRelation ::
  "env \<Rightarrow> bool \<Rightarrow> string list \<Rightarrow> string option \<Rightarrow> string option \<Rightarrow> pass_state \<Rightarrow> error + pass_state" where
  "followRelation E subQuery [] parentCollection parentAlias st = Inl TypeError"
| "followRelation E subQuery (part # rest) parentCollection parentAlias st =
     (case find_relation (relations (schema E)) parentCollection (path_root part) of
        None \<Rightarrow> Inr st
      | Some r \<Rightarrow>
          (let relationType = getRelationType r parentCollection (path_root part);
               alias = generateAlias E (drawn st);
               st1 = st\<lparr>drawn := Suc (drawn st),
                        aliasMap := lodash_set (aliasMap st) (alias_path parentAlias (part # rest)) alias\<rparr>
           in
           bindE (if relationType = Some M2O
                    then join_m2o E r parentCollection parentAlias alias st1 else Inr st1) (\<lambda>st2.
           bindE (if relationType = Some M2A
                    then join_m2a E r part parentCollection parentAlias alias st2 else Inr st2) (\<lambda>st3.
           bindE (if relationType = Some O2M \<and> (subQuery \<or> parentAlias \<noteq> None)
                    then join_o2m E r parentCollection parentAlias alias st3 else Inr st3) (\<lambda>st4.
           if relationType = Some M2O \<or> subQuery then
             bindE (parent_of r relationType part) (\<lambda>parent.
               if rest \<noteq> [] then followRelation E subQuery rest parent (Some alias) st4
               else Inr st4)
           else Inr st4)))))"

definition addJoin :: "env \<Rightarrow> bool \<Rightarrow> string list \<Rightarrow> string \<Rightarrow> pass_state \<Rightarrow> error + pass_state" where
  "addJoin E subQuery path collection st = followRelation E subQuery path (Some collection) None st"

text \<open>\<^verbatim>\<open>value.some((subFilter) => Object.keys(subFilter).length === 0)\<close>\<close>

fun some_empty :: "json list \<Rightarrow> error + bool" where
  "some_empty [] = Inr False"
| "some_empty (x # xs) =
     (case entries x of Inl e \<Rightarrow> Inl e | Inr es \<Rightarrow> if es = [] then Inr True else some_empty xs)"

definition value_some_empty :: "json \<Rightarrow> error + bool" where
  "value_some_empty v = (case v of JArr subs \<Rightarrow> some_empty subs | _ \<Rightarrow> Inl TypeError)"

text \<open>
  The short-circuit both passes start a group with:
  \<^verbatim>\<open>key === '_or' && value.some(...)\<close> (\<^verbatim>\<open>some\<close> is not called for
  \<^verbatim>\<open>_and\<close>).
\<close>

definition short_circuit :: "string \<Rightarrow> json \<Rightarrow> error + bool" where
  "short_circuit key v = (if key = ''_or'' then value_some_empty v else Inr False)"

lemma foldE_cong [fundef_cong]:
  "xs = ys \<Longrightarrow> s = t \<Longrightarrow> (\<And>x s'. x \<in> set ys \<Longrightarrow> f x s' = g x s') \<Longrightarrow> foldE f xs s = foldE g ys t"
proof (induction ys arbitrary: xs s t)
  case Nil
  then show ?case by simp
next
  case (Cons y ys)
  then show ?case by (auto split: sum.splits)
qed

lemma bindE_cong [fundef_cong]:
  "r = r' \<Longrightarrow> (\<And>x. r' = Inr x \<Longrightarrow> f x = g x) \<Longrightarrow> bindE r f = bindE r' g"
  by (auto simp: bindE_def split: sum.splits)

lemma size_entry_obj: "(k, v) \<in> set kvs \<Longrightarrow> size v < Suc (size_list (size_prod (\<lambda>_. 0) size) kvs)"
  by (induction kvs) auto

lemma size_element: "x \<in> set xs \<Longrightarrow> size x < Suc (size_list size xs)"
  by (induction xs) auto

lemma size_entries: "entries f = Inr es \<Longrightarrow> (k, v) \<in> set es \<Longrightarrow> size v \<le> size f"
proof (cases f)
  case (JStr s)
  assume "entries f = Inr es" "(k, v) \<in> set es"
  with JStr have "v \<in> set (map (\<lambda>c. JStr [c]) s)"
    by (auto simp: indexed_def dest: set_zip_rightD)
  with JStr show ?thesis by auto
next
  case (JArr xs)
  assume "entries f = Inr es" "(k, v) \<in> set es"
  with JArr have "v \<in> set xs"
    by (auto simp: indexed_def dest: set_zip_rightD)
  with JArr show ?thesis using size_element [of v xs] by simp
next
  case (JObj kvs)
  assume "entries f = Inr es" "(k, v) \<in> set es"
  with JObj show ?thesis using size_entry_obj [of k v kvs] by simp
qed auto

text \<open>
  \<^verbatim>\<open>addJoins\<close>: the loop over the entries and the \<^verbatim>\<open>forEach\<close> are folds;
  \<^verbatim>\<open>addJoins_entry\<close> is the body of the loop for one key and its value.
\<close>

function addJoins :: "env \<Rightarrow> bool \<Rightarrow> json \<Rightarrow> string \<Rightarrow> pass_state \<Rightarrow> error + pass_state"
  and addJoins_entry ::
    "env \<Rightarrow> bool \<Rightarrow> string \<Rightarrow> string \<Rightarrow> json \<Rightarrow> pass_state \<Rightarrow> error + pass_state"
where
  "addJoins E subQuery fltr collection st =
     bindE (entries fltr) (\<lambda>es.
       foldE (\<lambda>(key, v) st. addJoins_entry E subQuery collection key v st) es st)"
| "addJoins_entry E subQuery collection key v st =
     (if key = ''_or'' \<or> key = ''_and'' then
        bindE (short_circuit key v) (\<lambda>skip.
          if skip then Inr st
          else (case v of
                  JArr subs \<Rightarrow>
                    foldE (\<lambda>subFilter st. addJoins E subQuery subFilter collection st) subs st
                | _ \<Rightarrow> Inl TypeError))
      else
        bindE (getFilterPath key v) (\<lambda>filterPath.
          if length filterPath > 1 then addJoin E subQuery filterPath collection st
          else Inr st))"
  by pat_completeness auto
termination
  by (relation "measure (\<lambda>x. case x of
        Inl (E, subQuery, fltr, collection, st) \<Rightarrow> 2 * size fltr + 1
      | Inr (E, subQuery, collection, key, v, st) \<Rightarrow> 2 * size v)")
     (auto dest: size_entries size_element)

declare addJoins.simps [simp del] addJoins_entry.simps [simp del]

section \<open>The predicate compiler\<close>

text \<open>What \<^verbatim>\<open>get(aliasMap, ...)\<close> returned, as the next key or table name.\<close>

definition alias_key :: "aval option \<Rightarrow> string option" where
  "alias_key a = (case a of None \<Rightarrow> None | Some x \<Rightarrow> Some (alias_string x))"

text \<open>
  \<^verbatim>\<open>getWhereColumn\<close>: \<^verbatim>\<open>None\<close> is the \<^verbatim>\<open>undefined\<close> it returns
  when nothing remains after the first part.
\<close>

fun getWhereColumn ::
  "env \<Rightarrow> (string \<times> aval) list \<Rightarrow> string list \<Rightarrow> string option \<Rightarrow> string option
     \<Rightarrow> error + string option" where
  "getWhereColumn E am [] collection alias = Inl TypeError"
| "getWhereColumn E am (part # remainingParts) collection alias =
     (case find_relation (relations (schema E)) collection (path_root part) of
        None \<Rightarrow>
          Inl (InvalidQueryException (NotRelational (collection_string collection) (path_root part)))
      | Some r \<Rightarrow>
          (let relationType = getRelationType r collection (path_root part);
               alias' = alias_key (lodash_get am (alias_path alias (part # remainingParts)))
           in bindE (parent_of r relationType part) (\<lambda>parent.
                (case remainingParts of
                   [] \<Rightarrow> Inr None
                 | [lastPart] \<Rightarrow> Inr (Some (dotted (alias_or_collection alias' parent) lastPart))
                 | _ \<Rightarrow> getWhereColumn E am remainingParts parent alias'))))"

text \<open>
  \<^verbatim>\<open>applySearch\<close> is an \<^verbatim>\<open>async\<close> function that \<^verbatim>\<open>applyQuery\<close>
  does not await: a \<^verbatim>\<open>TypeError\<close> on an unknown collection rejects its promise
  and leaves the builder as it was.
\<close>

definition search_field :: "env \<Rightarrow> string \<Rightarrow> string \<Rightarrow> (string \<times> string) \<Rightarrow> wh list" where
  "search_field E searchQuery collection nf =
     (case nf of (name, ftype) \<Rightarrow>
        if ftype \<in> set [''text'', ''string''] then
          [Where LOr (WhereRawBindings ''LOWER(??) LIKE ?''
                        [dotted collection name, ''%'' @ toLowerCase E searchQuery @ ''%''])]
        else if ftype \<in> set [''bigInteger'', ''integer'', ''decimal'', ''float''] then
          (case toNumber E searchQuery of
             None \<Rightarrow> []
           | Some n \<Rightarrow> [Where LOr (WhereObj (dotted collection name) (JNum n))])
        else if ftype = ''uuid'' \<and> validate_uuid E searchQuery then
          [Where LOr (WhereObj (dotted collection name) (JStr searchQuery))]
        else [])"

definition applySearch :: "env \<Rightarrow> qb \<Rightarrow> string \<Rightarrow> string \<Rightarrow> qb" where
  "applySearch E dbQuery searchQuery collection =
     (case collections (schema E) collection of
        None \<Rightarrow> dbQuery
      | Some info \<Rightarrow>
          knex_where
            (WhereWrapped LAnd
               (Inr (concat (map (search_field E searchQuery collection) (coll_fields info)))))
            dbQuery)"

text \<open>
  A query. \<^verbatim>\<open>query_filter\<close> is \<^verbatim>\<open>JUndefined\<close> when the query has no
  filter; a sort entry is its column and its order.
\<close>

record query =
  query_sort :: "(string \<times> string) list option"
  query_limit :: "int option"
  query_offset :: "int option"
  query_page :: "int option"
  query_filter :: json
  query_search :: "string option"

definition filter_only :: "json \<Rightarrow> query" where
  "filter_only v =
     \<lparr>query_sort = None, query_limit = None, query_offset = None, query_page = None,
      query_filter = v, query_search = None\<rparr>"

text \<open>The statements before \<^verbatim>\<open>if (query.filter)\<close> in \<^verbatim>\<open>applyQuery\<close>.\<close>

definition apply_sort :: "string \<Rightarrow> query \<Rightarrow> qb \<Rightarrow> qb" where
  "apply_sort collection q dbQuery =
     (case query_sort q of
        None \<Rightarrow> dbQuery
      | Some cols \<Rightarrow> knex_orderBy (map (\<lambda>(column, ord). (dotted collection column, ord)) cols) dbQuery)"

definition apply_limit :: "query \<Rightarrow> qb \<Rightarrow> qb" where
  "apply_limit q dbQuery = (case query_limit q of None \<Rightarrow> dbQuery | Some l \<Rightarrow> knex_limit l dbQuery)"

definition apply_offset :: "query \<Rightarrow> qb \<Rightarrow> qb" where
  "apply_offset q dbQuery =
     (case query_offset q of
        None \<Rightarrow> dbQuery
      | Some off \<Rightarrow> if off \<noteq> 0 then knex_offset off dbQuery else dbQuery)"

definition apply_page :: "query \<Rightarrow> qb \<Rightarrow> qb" where
  "apply_page q dbQuery =
     (case (query_page q, query_limit q) of
        (Some p, Some l) \<Rightarrow> if p \<noteq> 0 \<and> l \<noteq> 0 then knex_offset (l * (p - 1)) dbQuery else dbQuery
      | _ \<Rightarrow> dbQuery)"

definition apply_search :: "env \<Rightarrow> string \<Rightarrow> query \<Rightarrow> qb \<Rightarrow> qb" where
  "apply_search E collection q dbQuery =
     (case query_search q of
        None \<Rightarrow> dbQuery
      | Some s \<Rightarrow> if s \<noteq> [] then applySearch E dbQuery s collection else dbQuery)"

text \<open>
  \<^verbatim>\<open>dbQuery[logical].where(callback)\<close> and
  \<^verbatim>\<open>dbQuery[logical].whereIn(pkField, callback)\<close>: the statement holds the outcome
  of the callback; the draws of a callback that throws are not counted.
\<close>

definition where_wrapped :: "logical \<Rightarrow> pass_state \<Rightarrow> error + pass_state \<Rightarrow> pass_state" where
  "where_wrapped lg st inner =
     (case inner of
        Inl e \<Rightarrow> st\<lparr>builder := knex_where (WhereWrapped lg (Inl e)) (builder st)\<rparr>
      | Inr st' \<Rightarrow>
          st\<lparr>builder := knex_where (WhereWrapped lg (Inr (qb_wheres (builder st')))) (builder st),
             drawn := drawn st'\<rparr>)"

definition where_in_sub :: "logical \<Rightarrow> string \<Rightarrow> pass_state \<Rightarrow> error + qb \<times> nat \<Rightarrow> pass_state" where
  "where_in_sub lg pkField st inner =
     (case inner of
        Inl e \<Rightarrow> st\<lparr>builder := knex_where (WhereInSub lg pkField (Inl e)) (builder st)\<rparr>
      | Inr (q, n) \<Rightarrow>
          st\<lparr>builder := knex_where (WhereInSub lg pkField (Inr q)) (builder st), drawn := n\<rparr>)"

text \<open>
  \<^verbatim>\<open>subQueryKnex.select({ [field]: column }).from(collection)\<close>, the builder the
  callback of \<^verbatim>\<open>whereIn\<close> starts from.
\<close>

definition subquery_base :: "relation \<Rightarrow> qb" where
  "subquery_base r =
     knex_from (rel_collection r)
       (knex_select (rel_field r, dotted (rel_collection r) (rel_field r)) empty_qb)"

definition apply_predicate ::
  "env \<Rightarrow> string \<Rightarrow> string \<Rightarrow> json \<Rightarrow> logical \<Rightarrow> pass_state \<Rightarrow> error + pass_state" where
  "apply_predicate E column operator compareValue lg st =
     bindE (applyFilterToQuery E (builder st) column operator compareValue lg)
       (\<lambda>dbQuery. Inr (st\<lparr>builder := dbQuery\<rparr>))"

text \<open>
  \<^verbatim>\<open>addWhereClauses\<close>, \<^verbatim>\<open>applyFilter\<close> and \<^verbatim>\<open>applyQuery\<close>;
  \<^verbatim>\<open>addWhereClauses_entry\<close> is the body of the loop for one key and its value.
  The number threaded through them counts the aliases drawn so far; a callback draws
  after the statements before it.
\<close>

function addWhereClauses ::
    "env \<Rightarrow> bool \<Rightarrow> json \<Rightarrow> string \<Rightarrow> logical \<Rightarrow> pass_state \<Rightarrow> error + pass_state"
  and addWhereClauses_entry ::
    "env \<Rightarrow> bool \<Rightarrow> string \<Rightarrow> logical \<Rightarrow> string \<Rightarrow> json \<Rightarrow> pass_state \<Rightarrow> error + pass_state"
  and applyFilter :: "env \<Rightarrow> qb \<Rightarrow> json \<Rightarrow> string \<Rightarrow> bool \<Rightarrow> nat \<Rightarrow> error + qb \<times> nat"
  and applyQuery :: "env \<Rightarrow> string \<Rightarrow> qb \<Rightarrow> query \<Rightarrow> bool \<Rightarrow> nat \<Rightarrow> error + qb \<times> nat"
where
  "addWhereClauses E subQuery fltr collection lg st =
     bindE (entries fltr) (\<lambda>es.
       foldE (\<lambda>(key, v) st. addWhereClauses_entry E subQuery collection lg key v st) es st)"
| "addWhereClauses_entry E subQuery collection lg key v st =
     (if key = ''_or'' \<or> key = ''_and'' then
        bindE (short_circuit key v) (\<lambda>skip.
          if skip then Inr st
          else
            Inr (where_wrapped lg st
                   (case v of
                      JArr subs \<Rightarrow>
                        foldE (\<lambda>subFilter s.
                                 addWhereClauses E subQuery subFilter collection
                                   (if key = ''_and'' then LAnd else LOr) s)
                          subs (st\<lparr>builder := empty_qb\<rparr>)
                    | _ \<Rightarrow> Inl TypeError)))
      else
        bindE (getFilterPath key v) (\<lambda>filterPath.
          (case filterPath of
             [] \<Rightarrow> Inl TypeError
           | part # _ \<Rightarrow>
               (let relation = find_relation (relations (schema E)) (Some collection) (path_root part)
                in bindE (getOperation key v) (\<lambda>(filterOperator, filterValue).
                     (let relationType =
                            (case relation of
                               None \<Rightarrow> None
                             | Some r \<Rightarrow> getRelationType r (Some collection) (path_root part))
                      in if relationType = Some M2O \<or> relationType = Some M2A
                            \<or> relationType = None then
                           (if length filterPath > 1 then
                              bindE (getWhereColumn E (aliasMap st) filterPath (Some collection) None)
                                (\<lambda>columnName.
                                   (case columnName of
                                      None \<Rightarrow> Inr st
                                    | Some column \<Rightarrow>
                                        apply_predicate E column filterOperator filterValue
                                          lg st))
                            else
                              apply_predicate E (dotted collection part) filterOperator
                                filterValue lg st)
                         else if \<not> subQuery then
                           (case relation of
                              None \<Rightarrow> Inl TypeError
                            | Some r \<Rightarrow>
                                bindE (primary_of E (rel_related_collection r)) (\<lambda>pk.
                                  Inr (where_in_sub lg (dotted collection pk) st
                                         (applyQuery E (rel_collection r) (subquery_base r)
                                            (filter_only v) True (drawn st)))))
                         else Inr st))))))"
| "applyFilter E rootQuery rootFilter collection subQuery n =
     bindE (addJoins E subQuery rootFilter collection
              \<lparr>builder = rootQuery, aliasMap = [], drawn = n\<rparr>) (\<lambda>st1.
       bindE (addWhereClauses E subQuery rootFilter collection LAnd st1) (\<lambda>st2.
         Inr (builder st2, drawn st2)))"
| "applyQuery E collection dbQuery q subQuery n =
     (let dbQuery1 = apply_page q (apply_offset q (apply_limit q (apply_sort collection q dbQuery)))
      in bindE (if truthy (query_filter q)
                  then applyFilter E dbQuery1 (query_filter q) collection subQuery n
                else Inr (dbQuery1, n)) (\<lambda>(dbQuery2, n').
           Inr (apply_search E collection q dbQuery2, n')))"
  by pat_completeness auto
termination
proof (relation "inv_image (less_than <*lex*> less_than <*lex*> less_than)
     (\<lambda>x. case x of
        Inl (Inl (E, subQuery, fltr, collection, lg, st)) \<Rightarrow>
          (if subQuery then 0 else 1 :: nat, 2 * size fltr + 1, 0 :: nat)
      | Inl (Inr (E, subQuery, collection, lg, key, v, st)) \<Rightarrow>
          (if subQuery then 0 else 1, 2 * size v, 0)
      | Inr (Inl (E, rootQuery, rootFilter, collection, subQuery, n)) \<Rightarrow>
          (if subQuery then 0 else 1, 2 * size rootFilter + 1, 1)
      | Inr (Inr (E, collection, dbQuery, q, subQuery, n)) \<Rightarrow>
          (if subQuery then 0 else 1, 2 * size (query_filter q) + 1, 2))", goal_cases)
  case 1
  show ?case by (intro wf_inv_image wf_lex_prod wf_less_than)
qed (auto dest: size_entries size_element)

declare addWhereClauses.simps [simp del] addWhereClauses_entry.simps [simp del]
  applyFilter.simps [simp del] applyQuery.simps [simp del]

text \<open>
  The exceptions that the callbacks held by the statements of a builder throw when Knex
  runs them, and the builders and results in which none of them is
  \<^verbatim>\<open>Forbidden\<close>.
\<close>

fun wh_errors :: "wh \<Rightarrow> error list"
  and whs_errors :: "wh list \<Rightarrow> error list"
  and qb_errors :: "qb \<Rightarrow> error list"
where
  "wh_errors (Where lg p) = []"
| "wh_errors (WhereWrapped lg (Inl e)) = [e]"
| "wh_errors (WhereWrapped lg (Inr ws)) = whs_errors ws"
| "wh_errors (WhereInSub lg column (Inl e)) = [e]"
| "wh_errors (WhereInSub lg column (Inr q)) = qb_errors q"
| "whs_errors [] = []"
| "whs_errors (w # ws) = wh_errors w @ whs_errors ws"
| "qb_errors (QB s f ob l off js ws) = whs_errors ws"

definition qb_ok :: "qb \<Rightarrow> bool" where
  "qb_ok q = (ForbiddenException \<notin> set (qb_errors q))"

definition state_ok :: "error + pass_state \<Rightarrow> bool" where
  "state_ok r = (case r of Inl e \<Rightarrow> e \<noteq> ForbiddenException | Inr st \<Rightarrow> qb_ok (builder st))"

definition pair_ok :: "error + qb \<times> nat \<Rightarrow> bool" where
  "pair_ok r = (case r of Inl e \<Rightarrow> e \<noteq> ForbiddenException | Inr (q, n) \<Rightarrow> qb_ok q)"

section \<open>Column defaults\<close>

text \<open>
  A column as \<^verbatim>\<open>getDefaultValue\<close> reads it. \<^verbatim>\<open>getLocalType\<close> of
  \<^verbatim>\<open>./get-local-type\<close> and the conversion \<^verbatim>\<open>Number(v)\<close> (\<^verbatim>\<open>None\<close>
  is NaN) are parameters.
\<close>

record column =
  default_value :: json
  data_type :: string

text \<open>
  The default without the extra pair of quotes SQLite wraps it in:
  \<^verbatim>\<open>defaultValue.slice(1, -1)\<close> when a string starts and ends with the same quote.
\<close>

definition wrapped_in :: "char \<Rightarrow> string \<Rightarrow> bool" where
  "wrapped_in c s = (s \<noteq> [] \<and> hd s = c \<and> last s = c)"

definition strip_quotes :: "json \<Rightarrow> json" where
  "strip_quotes v =
     (case v of
        JStr s \<Rightarrow> if wrapped_in (CHR 0x27) s \<or> wrapped_in (CHR 0x22) s then JStr (butlast (tl s)) else v
      | _ \<Rightarrow> v)"

definition castToBoolean :: "json \<Rightarrow> bool" where
  "castToBoolean v = (case v of JStr s \<Rightarrow> s \<noteq> ''false'' \<and> s \<noteq> ''1'' | _ \<Rightarrow> truthy v)"

definition getDefaultValue :: "(column \<Rightarrow> string) \<Rightarrow> (json \<Rightarrow> int option) \<Rightarrow> column \<Rightarrow> json" where
  "getDefaultValue getLocalType number col =
     (let ltype = getLocalType col;
          defaultValue = (if default_value col = JUndefined then JNull else default_value col)
      in if defaultValue = JNull then JNull
         else if defaultValue = JStr ''null'' then JNull
         else if defaultValue = JStr ''NULL'' then JNull
         else (let defaultValue = strip_quotes defaultValue
               in if ltype \<in> set [''bigInteger'', ''integer'', ''decimal'', ''float''] then
                    (case number defaultValue of None \<Rightarrow> defaultValue | Some n \<Rightarrow> JNum n)
                  else if ltype = ''boolean'' then JBool (castToBoolean defaultValue)
                  else defaultValue))"

section \<open>Nested one-to-many writes\<close>

text \<open>
  \<^verbatim>\<open>processO2M\<close> of the payload service. The database and the
  \<^verbatim>\<open>ItemsService\<close> of the related collection are collaborators: the state of the
  database is a parameter \<^verbatim>\<open>'db\<close>, and each operation is a function of it that
  may fail. \<^verbatim>\<open>select_first db collection pk key\<close> is
  \<^verbatim>\<open>knex.select(...).from(collection).where({[pk]: key}).first()\<close>
  (\<^verbatim>\<open>None\<close> when no row matches); the operations of the service return the
  revisions they report; \<^verbatim>\<open>joi_error\<close> is the message of the Joi validation
  and \<^verbatim>\<open>loose_equal\<close> is JavaScript's \<^verbatim>\<open>==\<close>.
\<close>

record 'db services =
  select_first :: "'db \<Rightarrow> string \<Rightarrow> string \<Rightarrow> json \<Rightarrow> error + (string \<times> json) list option"
  upsertMany :: "string \<Rightarrow> json list \<Rightarrow> 'db \<Rightarrow> error + json list \<times> json list \<times> 'db"
  deleteByQuery :: "string \<Rightarrow> json \<Rightarrow> 'db \<Rightarrow> error + 'db"
  updateByQuery :: "string \<Rightarrow> json \<Rightarrow> json \<Rightarrow> 'db \<Rightarrow> error + json list \<times> 'db"
  createMany :: "string \<Rightarrow> json list \<Rightarrow> 'db \<Rightarrow> error + json list \<times> 'db"
  updateOne :: "string \<Rightarrow> json \<Rightarrow> json \<Rightarrow> 'db \<Rightarrow> error + json list \<times> 'db"
  joi_error :: "json \<Rightarrow> string option"
  loose_equal :: "json \<Rightarrow> json \<Rightarrow> bool"

text \<open>\<^verbatim>\<open>obj[k]\<close> on the entries of an object\<close>

definition property :: "(string \<times> json) list \<Rightarrow> string \<Rightarrow> json" where
  "property obj k = (case map_of obj k of None \<Rightarrow> JUndefined | Some v \<Rightarrow> v)"

text \<open>\<^verbatim>\<open>{ ...record, [k]: v }\<close>: spreading \<^verbatim>\<open>null\<close> or \<^verbatim>\<open>undefined\<close> adds nothing.\<close>

definition spread_with :: "json \<Rightarrow> string \<Rightarrow> json \<Rightarrow> json" where
  "spread_with record k v =
     JObj (AList.update k v (case entries record of Inl _ \<Rightarrow> [] | Inr es \<Rightarrow> es))"

definition is_primary_key :: "json \<Rightarrow> bool" where
  "is_primary_key v = (case v of JStr _ \<Rightarrow> True | JNum _ \<Rightarrow> True | _ \<Rightarrow> False)"

definition isNil :: "json \<Rightarrow> bool" where
  "isNil v = (v = JNull \<or> v = JUndefined)"

text \<open>\<^verbatim>\<open>parent || payload[currentPrimaryKeyField]\<close>\<close>

definition parent_or :: "json \<Rightarrow> json \<Rightarrow> json" where
  "parent_or parent current = (if truthy parent then parent else current)"

text \<open>
  One round of the loop over a nested array of items; the state is
  \<^verbatim>\<open>recordsToUpsert\<close> and \<^verbatim>\<open>savedPrimaryKeys\<close>.
\<close>

definition o2m_item ::
  "'db services \<Rightarrow> 'db \<Rightarrow> relation \<Rightarrow> string \<Rightarrow> json \<Rightarrow> json \<Rightarrow> json
     \<Rightarrow> json list \<times> json list \<Rightarrow> error + json list \<times> json list" where
  "o2m_item sv db r relatedPrimaryKeyField parent current relatedRecord acc =
     (case acc of (recordsToUpsert, savedPrimaryKeys) \<Rightarrow>
        if is_primary_key relatedRecord then
          bindE (select_first sv db (rel_collection r) relatedPrimaryKeyField relatedRecord)
            (\<lambda>existingRecord.
               (case existingRecord of
                  None \<Rightarrow> Inl ForbiddenException
                | Some existing \<Rightarrow>
                    if \<not> isNil (property existing (rel_field r)) \<and>
                       (loose_equal sv (property existing (rel_field r)) parent \<or>
                        loose_equal sv (property existing (rel_field r)) current)
                    then Inr (recordsToUpsert,
                              savedPrimaryKeys @ [property existing relatedPrimaryKeyField])
                    else Inr (recordsToUpsert @
                                [spread_with (JObj [(relatedPrimaryKeyField, relatedRecord)])
                                   (rel_field r) (parent_or parent current)],
                              savedPrimaryKeys)))
        else Inr (recordsToUpsert @
                    [spread_with relatedRecord (rel_field r) (parent_or parent current)],
                  savedPrimaryKeys))"

text \<open>The query that selects the related items the payload no longer lists.\<close>

definition o2m_filter :: "relation \<Rightarrow> string \<Rightarrow> json \<Rightarrow> string \<Rightarrow> json \<Rightarrow> json" where
  "o2m_filter r relatedPrimaryKeyField parent operator keys =
     JObj [(''_and'', JArr [JObj [(rel_field r, JObj [(''_eq'', parent)])],
                            JObj [(relatedPrimaryKeyField, JObj [(operator, keys)])]])]"

text \<open>
  \<^verbatim>\<open>deleteByQuery\<close> when the relation deletes deselected items,
  \<^verbatim>\<open>updateByQuery\<close> with the foreign key set to \<^verbatim>\<open>null\<close> otherwise.
\<close>

definition o2m_deselect ::
  "'db services \<Rightarrow> relation \<Rightarrow> relation_meta \<Rightarrow> json \<Rightarrow> json list \<times> 'db \<Rightarrow> error + json list \<times> 'db" where
  "o2m_deselect sv r m q acc =
     (case acc of (revisions, db) \<Rightarrow>
        if one_deselect_action m = Some ''delete'' then
          bindE (deleteByQuery sv (rel_collection r) q db) (\<lambda>db'. Inr (revisions, db'))
        else
          bindE (updateByQuery sv (rel_collection r) q (JObj [(rel_field r, JNull)]) db)
            (\<lambda>(revs, db'). Inr (revisions @ revs, db')))"

text \<open>The branch for a nested array of individual items.\<close>

definition o2m_array ::
  "'db services \<Rightarrow> relation \<Rightarrow> relation_meta \<Rightarrow> string \<Rightarrow> json \<Rightarrow> json \<Rightarrow> json list
     \<Rightarrow> json list \<times> 'db \<Rightarrow> error + json list \<times> 'db" where
  "o2m_array sv r m relatedPrimaryKeyField parent current items acc =
     (case acc of (revisions, db) \<Rightarrow>
        bindE (foldE (o2m_item sv db r relatedPrimaryKeyField parent current) items ([], []))
          (\<lambda>(recordsToUpsert, savedPrimaryKeys).
             bindE (upsertMany sv (rel_collection r) recordsToUpsert db) (\<lambda>(keys, revs, db').
               o2m_deselect sv r m
                 (o2m_filter r relatedPrimaryKeyField parent ''_nin'' (JArr (savedPrimaryKeys @ keys)))
                 (revisions @ revs, db'))))"

text \<open>
  The branch for an object of \<^verbatim>\<open>create\<close>, \<^verbatim>\<open>update\<close> and
  \<^verbatim>\<open>delete\<close>. The Joi schema admits arrays only under \<^verbatim>\<open>create\<close> and
  \<^verbatim>\<open>update\<close>; anything else there that is truthy has no \<^verbatim>\<open>map\<close> and
  is not iterated.
\<close>

definition o2m_alterations ::
  "'db services \<Rightarrow> relation \<Rightarrow> relation_meta \<Rightarrow> string \<Rightarrow> json \<Rightarrow> json \<Rightarrow> json
     \<Rightarrow> json list \<times> 'db \<Rightarrow> error + json list \<times> 'db" where
  "o2m_alterations sv r m relatedPrimaryKeyField parent current alterations acc =
     (case joi_error sv alterations of
        Some msg \<Rightarrow> Inl (InvalidPayloadException (''Invalid one-to-many update structure: '' @ msg))
      | None \<Rightarrow>
          (let alt = (case alterations of JObj kvs \<Rightarrow> kvs | _ \<Rightarrow> []) in
           bindE (case property alt ''create'' of
                    JArr cs \<Rightarrow>
                      (case acc of (revisions, db) \<Rightarrow>
                         bindE (createMany sv (rel_collection r)
                                  (map (\<lambda>item. spread_with item (rel_field r) (parent_or parent current)) cs)
                                  db)
                           (\<lambda>(revs, db'). Inr (revisions @ revs, db')))
                  | c \<Rightarrow> if truthy c then Inl TypeError else Inr acc) (\<lambda>acc1.
           bindE (case property alt ''update'' of
                    JArr us \<Rightarrow>
                      foldE (\<lambda>item (revisions, db).
                               bindE (updateOne sv (rel_collection r)
                                        (case item of JObj kvs \<Rightarrow> property kvs relatedPrimaryKeyField
                                         | _ \<Rightarrow> JUndefined)
                                        (spread_with item (rel_field r) (parent_or parent current)) db)
                                 (\<lambda>(revs, db'). Inr (revisions @ revs, db')))
                        us acc1
                  | u \<Rightarrow> if truthy u then Inl TypeError else Inr acc1) (\<lambda>acc2.
           if truthy (property alt ''delete'') then
             o2m_deselect sv r m
               (o2m_filter r relatedPrimaryKeyField parent ''_in'' (property alt ''delete'')) acc2
           else Inr acc2))))"

text \<open>One round of the loop over \<^verbatim>\<open>relationsToProcess\<close>.\<close>

definition o2m_relation ::
  "'db services \<Rightarrow> schema_overview \<Rightarrow> (string \<times> json) list \<Rightarrow> json \<Rightarrow> relation
     \<Rightarrow> json list \<times> 'db \<Rightarrow> error + json list \<times> 'db" where
  "o2m_relation sv sch payload parent r acc =
     (case rel_meta r of
        None \<Rightarrow> Inr acc
      | Some m \<Rightarrow>
          (let nested = (case one_field m of None \<Rightarrow> JUndefined | Some f \<Rightarrow> property payload f) in
           if \<not> truthy nested then Inr acc
           else
             (case collections sch (collection_string (rel_related_collection r)) of
                None \<Rightarrow> Inl TypeError
              | Some currentInfo \<Rightarrow>
                  (case collections sch (rel_collection r) of
                     None \<Rightarrow> Inl TypeError
                   | Some relatedInfo \<Rightarrow>
                       (case nested of
                          JArr items \<Rightarrow>
                            o2m_array sv r m (primary relatedInfo) parent
                              (property payload (primary currentInfo)) items acc
                        | _ \<Rightarrow>
                            o2m_alterations sv r m (primary relatedInfo) parent
                              (property payload (primary currentInfo)) nested acc)))))"

text \<open>
  \<^verbatim>\<open>relationsToProcess\<close>: the relations whose related collection is the service's
  collection and whose \<^verbatim>\<open>one_field\<close> is a key of the payload.
\<close>

definition relationsToProcess :: "schema_overview \<Rightarrow> string \<Rightarrow> (string \<times> json) list \<Rightarrow> relation list" where
  "relationsToProcess sch collection payload =
     filter (\<lambda>r. case meta_one_field r of
                    None \<Rightarrow> False
                  | Some f \<Rightarrow> f \<noteq> [] \<and> f \<in> fst ` set payload)
       (filter (\<lambda>r. rel_related_collection r = Some collection) (relations sch))"

definition processO2M ::
  "'db services \<Rightarrow> schema_overview \<Rightarrow> string \<Rightarrow> (string \<times> json) list \<Rightarrow> json \<Rightarrow> 'db
     \<Rightarrow> error + json list \<times> 'db" where
  "processO2M sv sch collection payload parent db =
     foldE (o2m_relation sv sch payload parent) (relationsToProcess sch collection payload) ([], db)"

section \<open>An example schema\<close>

text \<open>
  Articles have an author (many-to-one, and one-to-many from the author's side as
  \<^verbatim>\<open>articles\<close>); a block points at an item of any collection (many-to-any). The
  concrete inputs of the theorems below are filters over this schema.
\<close>

definition demo_relations :: "relation list" where
  "demo_relations =
     [\<lparr>rel_collection = ''articles'', rel_field = ''author'',
       rel_related_collection = Some ''authors'',
       rel_meta = Some \<lparr>one_field = Some ''articles'', one_collection_field = None,
                        one_allowed_collections = None, one_deselect_action = None\<rparr>\<rparr>,
      \<lparr>rel_collection = ''blocks'', rel_field = ''item'',
       rel_related_collection = None,
       rel_meta = Some \<lparr>one_field = None, one_collection_field = Some ''collection'',
                        one_allowed_collections = Some [''articles'', ''authors''],
                        one_deselect_action = None\<rparr>\<rparr>]"

definition demo_schema :: schema_overview where
  "demo_schema =
     \<lparr>collections = map_of
        [(''articles'', \<lparr>primary = ''id'',
            coll_fields = [(''id'', ''integer''), (''title'', ''string''), (''author'', ''integer'')]\<rparr>),
         (''authors'', \<lparr>primary = ''id'',
            coll_fields = [(''id'', ''integer''), (''name'', ''string'')]\<rparr>),
         (''blocks'', \<lparr>primary = ''id'',
            coll_fields = [(''id'', ''integer''), (''item'', ''string''), (''collection'', ''string'')]\<rparr>)],
      relations = demo_relations\<rparr>"

definition demo_alias :: "nat \<Rightarrow> string" where
  "demo_alias n = (if n = 0 then ''xviqp'' else if n = 1 then ''kbtzw'' else ''mroqa'')"

definition demo_toArray :: "json \<Rightarrow> json list" where
  "demo_toArray v = (case v of JArr xs \<Rightarrow> xs | _ \<Rightarrow> [v])"

definition demo_env :: env where
  "demo_env =
     \<lparr>schema = demo_schema, generateAlias = demo_alias, toArray = demo_toArray,
      toNumber = (\<lambda>s. None), validate_uuid = (\<lambda>s. False), toLowerCase = (\<lambda>s. s)\<rparr>"

text \<open>
  A database that holds one article, written by author 7, behind services that change
  nothing: \<^verbatim>\<open>select_first\<close> looks the key up among the rows.
\<close>

definition demo_services :: "((string \<times> json) list list) services" where
  "demo_services =
     \<lparr>select_first = (\<lambda>db c pk key. Inr (find (\<lambda>row. property row pk = key) db)),
      upsertMany = (\<lambda>c records db. Inr ([], [], db)),
      deleteByQuery = (\<lambda>c q db. Inr db),
      updateByQuery = (\<lambda>c q d db. Inr ([], db)),
      createMany = (\<lambda>c records db. Inr ([], db)),
      updateOne = (\<lambda>c key d db. Inr ([], db)),
      joi_error = (\<lambda>v. None),
      loose_equal = (\<lambda>a b. a = b)\<rparr>"

definition demo_rows :: "(string \<times> json) list list" where
  "demo_rows = [[(''id'', JNum 1), (''author'', JNum 7)]]"

section \<open>Pagination\<close>

lemma knex_offset_twice: "knex_offset b (knex_offset a q) = knex_offset b q"
  by (cases q) (simp add: knex_offset_def)

lemma knex_offset_limit: "knex_offset b (knex_limit a q) = knex_limit a (knex_offset b q)"
  by (cases q) (simp add: knex_offset_def knex_limit_def)

lemma knex_offset_orderBy: "knex_offset b (knex_orderBy a q) = knex_orderBy a (knex_offset b q)"
  by (cases q) (simp add: knex_offset_def knex_orderBy_def)

text \<open>
  Claim C8, as the spec states it, fails: \<^verbatim>\<open>if (query.page && query.limit)\<close> tests
  truthiness, so a page or a limit of 0 computes no offset and an explicit offset stays.
  With page 2, limit 0 and offset 5 the builder keeps offset 5, while the query
  \<^verbatim>\<open>{limit: 0, offset: 0 * (2 - 1)}\<close> sets no offset at all.
\<close>

theorem applyQuery_page_falsy_counterexample:
  "applyQuery demo_env ''articles'' empty_qb
     \<lparr>query_sort = None, query_limit = Some 0, query_offset = Some 5, query_page = Some 2,
      query_filter = JUndefined, query_search = None\<rparr> False 0 =
     Inr (QB [] None [] (Some 0) (Some 5) [] [], 0) \<and>
   applyQuery demo_env ''articles'' empty_qb
     \<lparr>query_sort = None, query_limit = Some 0, query_offset = Some (0 * (2 - 1)), query_page = None,
      query_filter = JUndefined, query_search = None\<rparr> False 0 =
     Inr (QB [] None [] (Some 0) None [] [], 0)"
  by (simp add: applyQuery.simps apply_page_def apply_offset_def apply_limit_def apply_search_def
      apply_sort_def empty_qb_def knex_limit_def knex_offset_def bindE_def)

text \<open>
  Claim C8, amended: for every query with a page \<open>p\<close> and a limit \<open>l\<close> that are both
  not 0, \<^verbatim>\<open>applyQuery\<close> does what it does for the query without page and offset on
  a builder whose offset is already \<open>l * (p - 1)\<close>, whatever explicit offset the query
  has; and when \<open>p\<close> is not 1 either, it leaves the same builder as the query
  \<^verbatim>\<open>{limit: l, offset: l * (p - 1)}\<close>.
\<close>

theorem applyQuery_page_offset:
  assumes "p \<noteq> 0" and "l \<noteq> 0"
  shows "applyQuery E collection dbQuery (q\<lparr>query_page := Some p, query_limit := Some l\<rparr>) subQuery n =
           applyQuery E collection (knex_offset (l * (p - 1)) dbQuery)
             (q\<lparr>query_page := None, query_limit := Some l, query_offset := None\<rparr>) subQuery n \<and>
         (p \<noteq> 1 \<longrightarrow>
           applyQuery E collection dbQuery (q\<lparr>query_page := Some p, query_limit := Some l\<rparr>) subQuery n =
             applyQuery E collection dbQuery
               (q\<lparr>query_page := None, query_limit := Some l, query_offset := Some (l * (p - 1))\<rparr>)
               subQuery n)"
  using assms
  by (simp add: applyQuery.simps Let_def apply_page_def apply_offset_def apply_limit_def
      apply_search_def knex_offset_twice knex_offset_limit knex_offset_orderBy apply_sort_def
      split: option.splits)

theorem applyQuery_page_offset_witness:
  "(2::int) \<noteq> 0 \<and> (10::int) \<noteq> 0 \<and> (2::int) \<noteq> 1 \<and>
   applyQuery demo_env ''articles'' empty_qb
     \<lparr>query_sort = None, query_limit = Some 10, query_offset = None, query_page = Some 2,
      query_filter = JUndefined, query_search = None\<rparr> False 0 =
   applyQuery demo_env ''articles'' empty_qb
     \<lparr>query_sort = None, query_limit = Some 10, query_offset = Some 10, query_page = None,
      query_filter = JUndefined, query_search = None\<rparr> False 0"
  using applyQuery_page_offset [of 2 10 demo_env "''articles''" empty_qb
     "\<lparr>query_sort = None, query_limit = Some 10, query_offset = None, query_page = Some 2,
      query_filter = JUndefined, query_search = None\<rparr>" False 0, THEN conjunct2]
  by simp

section \<open>Operators and their operands\<close>

text \<open>
  An operator that the first \<^verbatim>\<open>switch\<close> does not list leaves the builder as it is
  when its operand is undefined: \<^verbatim>\<open>applyFilterToQuery\<close> returns before the second
  \<^verbatim>\<open>switch\<close>, and nothing is thrown.
\<close>

lemma applyFilterToQuery_operand_undefined:
  "operator \<notin> {''_null'', ''_nnull'', ''_empty'', ''_nempty''} \<Longrightarrow>
     applyFilterToQuery E query key operator JUndefined lg = Inr query"
  by (simp add: applyFilterToQuery_def Let_def operator_without_value_def add_predicate_def)

text \<open>
  The four operators of the first \<^verbatim>\<open>switch\<close> call the builder for every operand,
  also an undefined one, and no case of the second \<^verbatim>\<open>switch\<close> adds to that.
  \<^verbatim>\<open>_null\<close>, \<^verbatim>\<open>_nnull\<close> and \<^verbatim>\<open>_empty\<close> call the method of their own
  sense, and the opposite one when the operand is \<^verbatim>\<open>false\<close>.
\<close>

lemma applyFilterToQuery_null:
  "applyFilterToQuery E query key ''_null'' v lg =
     Inr (knex_where (Where lg (if v = JBool False then WhereNotNull key else WhereNull key)) query)"
  by (simp add: applyFilterToQuery_def Let_def operator_without_value_def
      operator_with_value_def add_predicate_def bindE_def)

lemma applyFilterToQuery_nnull:
  "applyFilterToQuery E query key ''_nnull'' v lg =
     Inr (knex_where (Where lg (if v = JBool False then WhereNull key else WhereNotNull key)) query)"
  by (simp add: applyFilterToQuery_def Let_def operator_without_value_def
      operator_with_value_def add_predicate_def bindE_def)

lemma applyFilterToQuery_empty:
  "applyFilterToQuery E query key ''_empty'' v lg =
     Inr (knex_where (Where lg (if v = JBool False then WhereNotOp key ''='' (JStr [])
                                else WhereOp key ''='' (JStr []))) query)"
  by (simp add: applyFilterToQuery_def Let_def operator_without_value_def
      operator_with_value_def add_predicate_def bindE_def)

text \<open>
  \<^verbatim>\<open>_nempty\<close> negates twice: it compares with \<^verbatim>\<open>!=\<close> and picks
  \<^verbatim>\<open>whereNot\<close> unless the operand is \<^verbatim>\<open>false\<close>.
\<close>

lemma applyFilterToQuery_nempty:
  "applyFilterToQuery E query key ''_nempty'' v lg =
     Inr (knex_where (Where lg (if v = JBool False then WhereOp key ''!='' (JStr [])
                                else WhereNotOp key ''!='' (JStr []))) query)"
  by (simp add: applyFilterToQuery_def Let_def operator_without_value_def
      operator_with_value_def add_predicate_def bindE_def)

text \<open>
  Claim C6 against the code. The operators with an undefined operand are skipped as the
  claim says, and \<^verbatim>\<open>_null\<close>, \<^verbatim>\<open>_nnull\<close> and \<^verbatim>\<open>_empty\<close> emit their
  predicate. \<^verbatim>\<open>_nempty\<close> does not: for the filter
  \<^verbatim>\<open>{title: {_nempty: true}}\<close>, and for an absent operand, the statement is
  \<^verbatim>\<open>whereNot('articles.title', '!=', '')\<close>, the negation of "not equal to the empty
  string", which selects what \<^verbatim>\<open>_empty\<close> selects; the comparison
  \<^verbatim>\<open>where('articles.title', '!=', '')\<close> that the operator stands for is emitted for
  the operand \<^verbatim>\<open>false\<close> only. The sibling \<^verbatim>\<open>_nnull\<close> has the two senses
  the right way round.
\<close>

theorem nempty_emits_negated_comparison:
  "applyFilter demo_env empty_qb (JObj [(''title'', JObj [(''_nempty'', JBool True)])])
     ''articles'' False 0 =
     Inr (QB [] None [] None None []
            [Where LAnd (WhereNotOp ''articles.title'' ''!='' (JStr []))], 0) \<and>
   applyFilterToQuery demo_env empty_qb ''articles.title'' ''_nempty'' JUndefined LAnd =
     Inr (QB [] None [] None None []
            [Where LAnd (WhereNotOp ''articles.title'' ''!='' (JStr []))]) \<and>
   applyFilter demo_env empty_qb (JObj [(''title'', JObj [(''_nempty'', JBool False)])])
     ''articles'' False 0 =
     Inr (QB [] None [] None None []
            [Where LAnd (WhereOp ''articles.title'' ''!='' (JStr []))], 0) \<and>
   applyFilter demo_env empty_qb (JObj [(''title'', JObj [(''_empty'', JBool True)])])
     ''articles'' False 0 =
     Inr (QB [] None [] None None []
            [Where LAnd (WhereOp ''articles.title'' ''='' (JStr []))], 0) \<and>
   applyFilter demo_env empty_qb (JObj [(''title'', JObj [(''_nnull'', JBool True)])])
     ''articles'' False 0 =
     Inr (QB [] None [] None None [] [Where LAnd (WhereNotNull ''articles.title'')], 0) \<and>
   applyFilter demo_env empty_qb (JObj [(''title'', JObj [(''_nnull'', JBool False)])])
     ''articles'' False 0 =
     Inr (QB [] None [] None None [] [Where LAnd (WhereNull ''articles.title'')], 0)"
  by code_simp

section \<open>Defaults of boolean columns\<close>

text \<open>
  Claim C10: for a column whose local type is boolean, \<^verbatim>\<open>getDefaultValue\<close> returns
  \<^verbatim>\<open>null\<close> for the defaults \<^verbatim>\<open>null\<close> (or none), \<^verbatim>\<open>'null'\<close> and
  \<^verbatim>\<open>'NULL'\<close>, and otherwise \<^verbatim>\<open>castToBoolean\<close> of the default (without the
  quotes around it, if any). \<^verbatim>\<open>castToBoolean\<close> is false exactly for the strings
  \<^verbatim>\<open>'false'\<close> and \<^verbatim>\<open>'1'\<close> among the strings, so \<^verbatim>\<open>'0'\<close> gives true
  and \<^verbatim>\<open>'1'\<close> gives false; on every other value it is the value's truthiness.
\<close>

theorem getDefaultValue_boolean:
  assumes "getLocalType col = ''boolean''"
  shows "getDefaultValue getLocalType number col =
           (if default_value col \<in> {JUndefined, JNull, JStr ''null'', JStr ''NULL''} then JNull
            else JBool (castToBoolean (strip_quotes (default_value col)))) \<and>
         castToBoolean (JStr s) = (s \<noteq> ''false'' \<and> s \<noteq> ''1'') \<and>
         ((\<forall>s'. v \<noteq> JStr s') \<longrightarrow> castToBoolean v = truthy v) \<and>
         strip_quotes (JStr ''0'') = JStr ''0'' \<and> strip_quotes (JStr ''1'') = JStr ''1''"
  using assms
  by (auto simp: getDefaultValue_def Let_def castToBoolean_def strip_quotes_def wrapped_in_def
      split: json.splits)

theorem getDefaultValue_boolean_witness:
  "getDefaultValue data_type (\<lambda>v. None) \<lparr>default_value = JStr ''0'', data_type = ''boolean''\<rparr>
     = JBool True \<and>
   getDefaultValue data_type (\<lambda>v. None) \<lparr>default_value = JStr ''1'', data_type = ''boolean''\<rparr>
     = JBool False \<and>
   getDefaultValue data_type (\<lambda>v. None) \<lparr>default_value = JStr ''NULL'', data_type = ''boolean''\<rparr>
     = JNull \<and>
   getDefaultValue data_type (\<lambda>v. None) \<lparr>default_value = JNum 0, data_type = ''boolean''\<rparr>
     = JBool False"
  using getDefaultValue_boolean
          [of data_type "\<lparr>default_value = JStr ''0'', data_type = ''boolean''\<rparr>"
              "\<lambda>v. None" "''0''" "JNum 0"]
        getDefaultValue_boolean
          [of data_type "\<lparr>default_value = JStr ''1'', data_type = ''boolean''\<rparr>"
              "\<lambda>v. None" "''1''" "JNum 0"]
        getDefaultValue_boolean
          [of data_type "\<lparr>default_value = JStr ''NULL'', data_type = ''boolean''\<rparr>"
              "\<lambda>v. None" "''1''" "JNum 0"]
        getDefaultValue_boolean
          [of data_type "\<lparr>default_value = JNum 0, data_type = ''boolean''\<rparr>"
              "\<lambda>v. None" "''1''" "JNum 0"]
  by (simp add: castToBoolean_def strip_quotes_def)

section \<open>The short-circuit of an \<^verbatim>\<open>_or\<close> group\<close>

lemma foldE_append: "foldE f (xs @ ys) s = bindE (foldE f xs s) (foldE f ys)"
  by (induction xs arbitrary: s) (auto simp: bindE_def split: sum.splits)

lemma foldE_skip:
  assumes "\<And>s. f x s = Inr s"
  shows "foldE f (xs @ x # ys) s = foldE f (xs @ ys) s"
proof -
  have "foldE f (x # ys) = foldE f ys"
    by (rule ext) (simp add: assms)
  then show ?thesis by (simp add: foldE_append)
qed






section \<open>One step of each pass\<close>

lemma addJoins_JObj:
  "addJoins E subQuery (JObj kvs) collection st =
     foldE (\<lambda>(key, v) st. addJoins_entry E subQuery collection key v st) kvs st"
  by (simp add: addJoins.simps bindE_def)

lemma addWhereClauses_JObj:
  "addWhereClauses E subQuery (JObj kvs) collection lg st =
     foldE (\<lambda>(key, v) st. addWhereClauses_entry E subQuery collection lg key v st) kvs st"
  by (simp add: addWhereClauses.simps bindE_def)

lemma addJoins_entry_path:
  assumes "key \<noteq> ''_or''" and "key \<noteq> ''_and''" and "getFilterPath key v = Inr path"
  shows "addJoins_entry E subQuery collection key v st =
           (if length path > 1 then followRelation E subQuery path (Some collection) None st else Inr st)"
  using assms by (simp add: addJoins_entry.simps bindE_def addJoin_def)

lemma lodash_get_set: "path \<noteq> [] \<Longrightarrow> lodash_get (lodash_set m path a) path = Some (AStr a)"
proof (induction m path a rule: lodash_set.induct)
  case (1 obj v)
  then show ?case by simp
next
  case (2 obj k v)
  then show ?case by (simp add: update_conv')
next
  case (3 obj k k' ks v)
  then show ?case by (simp add: update_conv')
qed

lemma followRelation_m2o:
  assumes "find_relation (relations (schema E)) parentCollection (path_root part) = Some r"
    and "getRelationType r parentCollection (path_root part) = Some M2O"
    and "primary_of E (rel_related_collection r) = Inr pk"
  shows "followRelation E subQuery (part # rest) parentCollection parentAlias st =
           (let alias = generateAlias E (drawn st);
                st' = st\<lparr>builder := knex_leftJoin
                                      (LeftJoin alias (rel_related_collection r)
                                         (dotted (alias_or_collection parentAlias parentCollection) (rel_field r))
                                         (dotted alias pk)) (builder st),
                        aliasMap := lodash_set (aliasMap st) (alias_path parentAlias (part # rest)) alias,
                        drawn := Suc (drawn st)\<rparr>
            in if rest \<noteq> [] then followRelation E subQuery rest (rel_related_collection r) (Some alias) st'
               else Inr st')"
  using assms by (cases st) (simp add: Let_def bindE_def join_m2o_def leftJoin_def parent_of_def)

lemma followRelation_plain:
  "find_relation (relations (schema E)) parentCollection (path_root part) = None \<Longrightarrow>
     followRelation E subQuery (part # rest) parentCollection parentAlias st = Inr st"
  by simp

lemma followRelation_o2m:
  assumes "find_relation (relations (schema E)) parentCollection (path_root part) = Some r"
    and "getRelationType r parentCollection (path_root part) = Some O2M"
  shows "followRelation E subQuery (part # rest) parentCollection parentAlias st =
           (let alias = generateAlias E (drawn st);
                st1 = st\<lparr>drawn := Suc (drawn st),
                         aliasMap := lodash_set (aliasMap st) (alias_path parentAlias (part # rest)) alias\<rparr>
            in bindE (if subQuery \<or> parentAlias \<noteq> None
                        then join_o2m E r parentCollection parentAlias alias st1 else Inr st1) (\<lambda>st4.
                 if subQuery \<and> rest \<noteq> []
                   then followRelation E subQuery rest (Some (rel_collection r)) (Some alias) st4
                 else Inr st4))"
  using assms by (simp add: Let_def bindE_def parent_of_def split: sum.splits)

lemma addWhereClauses_entry_o2m:
  assumes "key \<noteq> ''_or''" and "key \<noteq> ''_and''"
    and "getFilterPath key v = Inr (key # rest)" and "getOperation key v = Inr opv"
    and "find_relation (relations (schema E)) (Some collection) (path_root key) = Some r"
    and "getRelationType r (Some collection) (path_root key) = Some O2M"
  shows "addWhereClauses_entry E subQuery collection lg key v st =
           (if subQuery then Inr st
            else bindE (primary_of E (rel_related_collection r)) (\<lambda>pk.
                   Inr (where_in_sub lg (dotted collection pk) st
                          (applyQuery E (rel_collection r) (subquery_base r) (filter_only v) True
                             (drawn st)))))"
  using assms by (cases opv) (simp add: addWhereClauses_entry.simps bindE_def Let_def)


section \<open>Aliases and joins\<close>

text \<open>
  Claim C1, as the spec states it, fails: \<^verbatim>\<open>followRelation\<close> never looks a
  path up before it draws an alias. Two leaves over the path \<^verbatim>\<open>author.name\<close> emit
  two joins of \<^verbatim>\<open>authors\<close>, under two aliases; the second alias replaces the first
  in the alias map, so both predicates use it and the first join is unused.
\<close>

theorem same_path_joined_twice_counterexample:
  "applyFilter demo_env empty_qb
     (JObj [(''_and'',
             JArr [JObj [(''author'', JObj [(''name'', JObj [(''_eq'', JStr ''a'')])])],
                   JObj [(''author'', JObj [(''name'', JObj [(''_neq'', JStr ''b'')])])]])])
     ''articles'' False 0 =
   Inr (QB [] None [] None None
          [LeftJoin ''xviqp'' (Some ''authors'') ''articles.author'' ''xviqp.id'',
           LeftJoin ''kbtzw'' (Some ''authors'') ''articles.author'' ''kbtzw.id'']
          [WhereWrapped LAnd
             (Inr [Where LAnd (WhereObj ''kbtzw.name'' (JStr ''a'')),
                   Where LAnd (WhereNotObj ''kbtzw.name'' (JStr ''b''))])], 2)"
  by code_simp

text \<open>
  Claim C1, amended: there is no reuse. Every traversal of a many-to-one first hop
  draws a new alias, emits a join under it and records it under the path, whatever the
  alias map holds already (the state \<open>st\<close> is arbitrary), and then follows the rest of
  the path from the related collection under that alias. For a path of two parts that
  ends in a plain field, the alias map then resolves the path to the alias just drawn:
  a path resolves to the alias recorded last for it.
\<close>

theorem addJoin_draws_fresh_alias:
  assumes "find_relation (relations (schema E)) (Some collection) (path_root part) = Some r"
    and "getRelationType r (Some collection) (path_root part) = Some M2O"
    and "primary_of E (rel_related_collection r) = Inr pk"
    and "alias = generateAlias E (drawn st)"
    and "st' = st\<lparr>builder := knex_leftJoin
                              (LeftJoin alias (rel_related_collection r)
                                 (dotted collection (rel_field r)) (dotted alias pk)) (builder st),
                   aliasMap := lodash_set (aliasMap st) (part # rest) alias,
                   drawn := Suc (drawn st)\<rparr>"
  shows "(rest \<noteq> [] \<longrightarrow>
            addJoin E subQuery (part # rest) collection st =
              followRelation E subQuery rest (rel_related_collection r) (Some alias) st') \<and>
         (rest = [lastPart] \<and>
          find_relation (relations (schema E)) (rel_related_collection r) (path_root lastPart) = None \<longrightarrow>
            addJoin E subQuery (part # rest) collection st = Inr st' \<and>
            (alias \<noteq> [] \<longrightarrow>
               getWhereColumn E (aliasMap st') (part # rest) (Some collection) None =
                 Inr (Some (dotted alias lastPart))))"
proof -
  have step: "rest \<noteq> [] \<Longrightarrow> addJoin E subQuery (part # rest) collection st =
      followRelation E subQuery rest (rel_related_collection r) (Some alias) st'"
    using followRelation_m2o [OF assms(1-3), of subQuery rest None st] assms(4,5)
    by (simp add: addJoin_def Let_def alias_or_collection_def alias_path_def collection_string_def)
  have gs: "lodash_get (lodash_set (aliasMap st) [part, lastPart] alias) [part, lastPart] = Some (AStr alias)"
    by (rule lodash_get_set) simp
  have col: "rest = [lastPart] \<Longrightarrow> alias \<noteq> [] \<Longrightarrow>
      getWhereColumn E (aliasMap st') [part, lastPart] (Some collection) None =
      Inr (Some (dotted alias lastPart))"
    using assms(1,2,5) gs
    by (simp add: Let_def bindE_def parent_of_def alias_path_def alias_key_def alias_string_def
        alias_or_collection_def)
  show ?thesis using step col by (auto simp: followRelation_plain)
qed

theorem addJoin_draws_fresh_alias_witness:
  "addJoin demo_env False [''author'', ''name''] ''articles''
     \<lparr>builder = QB [] None [] None None
                  [LeftJoin ''xviqp'' (Some ''authors'') ''articles.author'' ''xviqp.id''] [],
      aliasMap = [(''author'', AObj [(''name'', AStr ''xviqp'')])], drawn = 1\<rparr> =
   Inr \<lparr>builder = QB [] None [] None None
                      [LeftJoin ''xviqp'' (Some ''authors'') ''articles.author'' ''xviqp.id'',
                       LeftJoin ''kbtzw'' (Some ''authors'') ''articles.author'' ''kbtzw.id''] [],
        aliasMap = [(''author'', AObj [(''name'', AStr ''kbtzw'')])], drawn = 2\<rparr> \<and>
   getWhereColumn demo_env [(''author'', AObj [(''name'', AStr ''kbtzw'')])] [''author'', ''name'']
     (Some ''articles'') None = Inr (Some ''kbtzw.name'')"
proof -
  let ?st = "\<lparr>builder = QB [] None [] None None
                  [LeftJoin ''xviqp'' (Some ''authors'') ''articles.author'' ''xviqp.id''] [],
      aliasMap = [(''author'', AObj [(''name'', AStr ''xviqp'')])], drawn = 1\<rparr>"
  let ?st' = "\<lparr>builder = QB [] None [] None None
                      [LeftJoin ''xviqp'' (Some ''authors'') ''articles.author'' ''xviqp.id'',
                       LeftJoin ''kbtzw'' (Some ''authors'') ''articles.author'' ''kbtzw.id''] [],
        aliasMap = [(''author'', AObj [(''name'', AStr ''kbtzw'')])], drawn = 2\<rparr>"
  have 1: "find_relation (relations (schema demo_env)) (Some ''articles'') (path_root ''author'') =
             Some (demo_relations ! 0)"
    by code_simp
  have 2: "getRelationType (demo_relations ! 0) (Some ''articles'') (path_root ''author'') = Some M2O"
    by code_simp
  have 3: "primary_of demo_env (rel_related_collection (demo_relations ! 0)) = Inr ''id''"
    by code_simp
  have 4: "''kbtzw'' = generateAlias demo_env (drawn ?st)"
    by code_simp
  have 5: "?st' = ?st\<lparr>builder := knex_leftJoin
                              (LeftJoin ''kbtzw'' (rel_related_collection (demo_relations ! 0))
                                 (dotted ''articles'' (rel_field (demo_relations ! 0))) (dotted ''kbtzw'' ''id'')) (builder ?st),
                   aliasMap := lodash_set (aliasMap ?st) (''author'' # [''name'']) ''kbtzw'',
                   drawn := Suc (drawn ?st)\<rparr>"
    by code_simp
  have 6: "find_relation (relations (schema demo_env)) (rel_related_collection (demo_relations ! 0))
             (path_root ''name'') = None"
    by code_simp
  have 7: "dotted ''kbtzw'' ''name'' = ''kbtzw.name''"
    by code_simp
  show ?thesis
    using addJoin_draws_fresh_alias [OF 1 2 3 4 5, where subQuery = False and lastPart = "''name''"] 6 7
    by simp
qed

section \<open>One-to-many filters\<close>

text \<open>
  Claim C2, as the spec states it, fails in its second half: \<^verbatim>\<open>addJoins\<close> joins
  only when \<^verbatim>\<open>filterPath.length > 1\<close>. In a subquery pass a one-to-many key
  whose value is an operator object emits nothing, neither a join nor a predicate.
\<close>

theorem one_to_many_single_part_counterexample:
  "applyFilter demo_env empty_qb (JObj [(''articles'', JObj [(''_null'', JBool True)])]) ''authors'' True 0 =
     Inr (empty_qb, 0)"
  by code_simp

text \<open>
  Claim C2, amended: for a filter with one key that resolves to a one-to-many relation
  (its path and operation well formed, the collection in the schema), a pass that is
  not a subquery pass emits no join and one predicate
  \<^verbatim>\<open>collection.primaryKey IN (subquery)\<close>, whose subquery selects the foreign key
  from the related collection and holds what \<^verbatim>\<open>applyQuery\<close> compiles from the
  nested filter in a subquery pass (an alias is drawn when the path has more than one
  part); a subquery pass emits no predicate, and for a path of more than one part it
  emits the join of the related collection and follows the rest of the path; for a
  path of one part it emits nothing.
\<close>

theorem applyFilter_one_to_many:
  assumes "key \<noteq> ''_or''" and "key \<noteq> ''_and''"
    and "getFilterPath key v = Inr (key # rest)" and "getOperation key v = Inr opv"
    and "find_relation (relations (schema E)) (Some collection) (path_root key) = Some r"
    and "getRelationType r (Some collection) (path_root key) = Some O2M"
    and "primary_of E (rel_related_collection r) = Inr pk"
    and "alias = generateAlias E n"
    and "n1 = (if rest = [] then n else Suc n)"
  shows "applyFilter E rootQuery (JObj [(key, v)]) collection False n =
           (case applyQuery E (rel_collection r) (subquery_base r) (filter_only v) True n1 of
              Inl e \<Rightarrow> Inr (knex_where (WhereInSub LAnd (dotted collection pk) (Inl e)) rootQuery, n1)
            | Inr (sub, n2) \<Rightarrow>
                Inr (knex_where (WhereInSub LAnd (dotted collection pk) (Inr sub)) rootQuery, n2)) \<and>
         (rest \<noteq> [] \<longrightarrow>
            applyFilter E rootQuery (JObj [(key, v)]) collection True n =
              bindE (followRelation E True rest (Some (rel_collection r)) (Some alias)
                       \<lparr>builder = knex_leftJoin
                                    (LeftJoin alias (Some (rel_collection r)) (dotted collection pk)
                                       (dotted alias (rel_field r))) rootQuery,
                        aliasMap = lodash_set [] (key # rest) alias,
                        drawn = Suc n\<rparr>)
                (\<lambda>st. Inr (builder st, drawn st))) \<and>
         (rest = [] \<longrightarrow> applyFilter E rootQuery (JObj [(key, v)]) collection True n = Inr (rootQuery, n))"
proof -
  let ?st0 = "\<lparr>builder = rootQuery, aliasMap = [], drawn = n\<rparr>"
  have jF: "addJoins E False (JObj [(key, v)]) collection ?st0 =
      Inr \<lparr>builder = rootQuery,
           aliasMap = (if rest = [] then [] else lodash_set [] (key # rest) alias), drawn = n1\<rparr>"
    using assms(8,9) followRelation_o2m [OF assms(5,6), of False rest None ?st0]
    by (simp add: addJoins_JObj addJoins_entry_path [OF assms(1-3)] Let_def bindE_def alias_path_def)
  have wF: "addWhereClauses E False (JObj [(key, v)]) collection LAnd s =
      Inr (where_in_sub LAnd (dotted collection pk) s
             (applyQuery E (rel_collection r) (subquery_base r) (filter_only v) True (drawn s)))" for s
    using assms(7) addWhereClauses_entry_o2m [OF assms(1-6), of False LAnd s]
    by (simp add: addWhereClauses_JObj bindE_def)
  have a: "applyFilter E rootQuery (JObj [(key, v)]) collection False n =
           (case applyQuery E (rel_collection r) (subquery_base r) (filter_only v) True n1 of
              Inl e \<Rightarrow> Inr (knex_where (WhereInSub LAnd (dotted collection pk) (Inl e)) rootQuery, n1)
            | Inr (sub, n2) \<Rightarrow>
                Inr (knex_where (WhereInSub LAnd (dotted collection pk) (Inr sub)) rootQuery, n2))"
    by (simp add: applyFilter.simps jF wF bindE_def where_in_sub_def split: sum.splits prod.splits)
  have wT: "addWhereClauses E True (JObj [(key, v)]) collection LAnd s = Inr s" for s
    using addWhereClauses_entry_o2m [OF assms(1-6), of True LAnd s]
    by (simp add: addWhereClauses_JObj)
  have jT: "rest \<noteq> [] \<Longrightarrow> addJoins E True (JObj [(key, v)]) collection ?st0 =
      followRelation E True rest (Some (rel_collection r)) (Some alias)
                       \<lparr>builder = knex_leftJoin
                                    (LeftJoin alias (Some (rel_collection r)) (dotted collection pk)
                                       (dotted alias (rel_field r))) rootQuery,
                        aliasMap = lodash_set [] (key # rest) alias,
                        drawn = Suc n\<rparr>"
    using assms(7,8) followRelation_o2m [OF assms(5,6), of True rest None ?st0]
    by (simp add: addJoins_JObj addJoins_entry_path [OF assms(1-3)] Let_def bindE_def join_o2m_def
          leftJoin_def alias_path_def alias_or_collection_def collection_string_def split: sum.splits)
  have b: "rest \<noteq> [] \<Longrightarrow> applyFilter E rootQuery (JObj [(key, v)]) collection True n =
              bindE (followRelation E True rest (Some (rel_collection r)) (Some alias)
                       \<lparr>builder = knex_leftJoin
                                    (LeftJoin alias (Some (rel_collection r)) (dotted collection pk)
                                       (dotted alias (rel_field r))) rootQuery,
                        aliasMap = lodash_set [] (key # rest) alias,
                        drawn = Suc n\<rparr>)
                (\<lambda>st. Inr (builder st, drawn st))"
    by (simp add: applyFilter.simps jT wT bindE_def split: sum.splits)
  have c: "rest = [] \<Longrightarrow> applyFilter E rootQuery (JObj [(key, v)]) collection True n = Inr (rootQuery, n)"
    by (simp add: applyFilter.simps addJoins_JObj addJoins_entry_path [OF assms(1-3)] wT bindE_def)
  show ?thesis using a b c by blast
qed

theorem applyFilter_one_to_many_witness:
  "applyFilter demo_env empty_qb
     (JObj [(''articles'', JObj [(''title'', JObj [(''_eq'', JStr ''x'')])])]) ''authors'' False 0 =
     Inr (QB [] None [] None None []
            [WhereInSub LAnd ''authors.id''
               (Inr (QB [(''author'', ''articles.author'')] (Some ''articles'') [] None None []
                       [Where LAnd (WhereObj ''articles.title'' (JStr ''x''))]))], 1) \<and>
   applyFilter demo_env empty_qb
     (JObj [(''articles'', JObj [(''title'', JObj [(''_eq'', JStr ''x'')])])]) ''authors'' True 0 =
     Inr (QB [] None [] None None
            [LeftJoin ''xviqp'' (Some ''articles'') ''authors.id'' ''xviqp.author''] [], 1)"
proof -
  let ?v = "JObj [(''title'', JObj [(''_eq'', JStr ''x'')])]"
  have 3: "getFilterPath ''articles'' ?v = Inr (''articles'' # [''title''])"
    by code_simp
  have 4: "getOperation ''articles'' ?v = Inr (''_eq'', JStr ''x'')"
    by code_simp
  have 5: "find_relation (relations (schema demo_env)) (Some ''authors'') (path_root ''articles'') =
             Some (demo_relations ! 0)"
    by code_simp
  have 6: "getRelationType (demo_relations ! 0) (Some ''authors'') (path_root ''articles'') = Some O2M"
    by code_simp
  have 7: "primary_of demo_env (rel_related_collection (demo_relations ! 0)) = Inr ''id''"
    by code_simp
  have 8: "''xviqp'' = generateAlias demo_env 0"
    by code_simp
  have 9: "Suc 0 = (if [''title''] = [] then 0 else Suc 0)"
    by simp
  have sub: "applyQuery demo_env (rel_collection (demo_relations ! 0)) (subquery_base (demo_relations ! 0))
               (filter_only ?v) True (Suc 0) =
             Inr (QB [(''author'', ''articles.author'')] (Some ''articles'') [] None None []
                       [Where LAnd (WhereObj ''articles.title'' (JStr ''x''))], 1)"
    by code_simp
  have fol: "followRelation demo_env True [''title''] (Some (rel_collection (demo_relations ! 0))) (Some ''xviqp'')
                       \<lparr>builder = knex_leftJoin
                                    (LeftJoin ''xviqp'' (Some (rel_collection (demo_relations ! 0))) (dotted ''authors'' ''id'')
                                       (dotted ''xviqp'' (rel_field (demo_relations ! 0)))) empty_qb,
                        aliasMap = lodash_set [] (''articles'' # [''title'']) ''xviqp'',
                        drawn = Suc 0\<rparr> =
             Inr \<lparr>builder = QB [] None [] None None
                      [LeftJoin ''xviqp'' (Some ''articles'') ''authors.id'' ''xviqp.author''] [],
                  aliasMap = [(''articles'', AObj [(''title'', AStr ''xviqp'')])], drawn = 1\<rparr>"
    by code_simp
  have k: "knex_where (WhereInSub LAnd (dotted ''authors'' ''id'')
             (Inr (QB [(''author'', ''articles.author'')] (Some ''articles'') [] None None []
                       [Where LAnd (WhereObj ''articles.title'' (JStr ''x''))]))) empty_qb =
           QB [] None [] None None []
            [WhereInSub LAnd ''authors.id''
               (Inr (QB [(''author'', ''articles.author'')] (Some ''articles'') [] None None []
                       [Where LAnd (WhereObj ''articles.title'' (JStr ''x''))]))]"
    by code_simp
  show ?thesis
    using applyFilter_one_to_many [OF _ _ 3 4 5 6 7 8 9, where rootQuery = empty_qb] sub fol k
    by (simp add: bindE_def)
qed

text \<open>
  Claim C7, as stated, fails for a key whose path has one part: in a subquery pass
  \<^verbatim>\<open>{articles: {_eq: 5}}\<close> emits no join (and no predicate).
\<close>

theorem subquery_one_to_many_single_part_counterexample:
  "applyQuery demo_env ''authors'' empty_qb
     (filter_only (JObj [(''articles'', JObj [(''_eq'', JNum 5)])])) True 0 = Inr (empty_qb, 0)"
  by code_simp

text \<open>
  Claim C7, amended: in a subquery pass a key that resolves to a one-to-many relation
  adds nothing to the where statements, wherever in the filter it stands: its nested
  value is dropped. The join planner emits the join of the related collection for it
  when its path has more than one part (and then follows the rest of the path), and
  nothing when its path has one part.
\<close>

theorem subquery_one_to_many_dropped:
  assumes "key \<noteq> ''_or''" and "key \<noteq> ''_and''"
    and "getFilterPath key v = Inr (key # rest)" and "getOperation key v = Inr opv"
    and "find_relation (relations (schema E)) (Some collection) (path_root key) = Some r"
    and "getRelationType r (Some collection) (path_root key) = Some O2M"
    and "primary_of E (rel_related_collection r) = Inr pk"
    and "alias = generateAlias E (drawn st)"
  shows "addWhereClauses E True (JObj (pre @ (key, v) # post)) collection lg st' =
           addWhereClauses E True (JObj (pre @ post)) collection lg st' \<and>
         (rest \<noteq> [] \<longrightarrow>
            addJoins_entry E True collection key v st =
              followRelation E True rest (Some (rel_collection r)) (Some alias)
                (st\<lparr>builder := knex_leftJoin
                                  (LeftJoin alias (Some (rel_collection r)) (dotted collection pk)
                                     (dotted alias (rel_field r))) (builder st),
                    aliasMap := lodash_set (aliasMap st) (key # rest) alias,
                    drawn := Suc (drawn st)\<rparr>)) \<and>
         (rest = [] \<longrightarrow> addJoins_entry E True collection key v st = Inr st)"
proof -
  have w: "addWhereClauses_entry E True collection lg key v s = Inr s" for s
    using addWhereClauses_entry_o2m [OF assms(1-6)] by simp
  have "(\<lambda>(key, v) st. addWhereClauses_entry E True collection lg key v st) (key, v) s = Inr s" for s
    by (simp add: w)
  then have 1: "addWhereClauses E True (JObj (pre @ (key, v) # post)) collection lg st' =
           addWhereClauses E True (JObj (pre @ post)) collection lg st'"
    unfolding addWhereClauses_JObj by (rule foldE_skip)
  have 2: "rest \<noteq> [] \<Longrightarrow> addJoins_entry E True collection key v st =
              followRelation E True rest (Some (rel_collection r)) (Some alias)
                (st\<lparr>builder := knex_leftJoin
                                  (LeftJoin alias (Some (rel_collection r)) (dotted collection pk)
                                     (dotted alias (rel_field r))) (builder st),
                    aliasMap := lodash_set (aliasMap st) (key # rest) alias,
                    drawn := Suc (drawn st)\<rparr>)"
    using assms(7,8) followRelation_o2m [OF assms(5,6), of True rest None st]
    by (cases st)
       (simp add: addJoins_entry_path [OF assms(1-3)] Let_def bindE_def join_o2m_def leftJoin_def
          alias_path_def alias_or_collection_def collection_string_def)
  have 3: "rest = [] \<Longrightarrow> addJoins_entry E True collection key v st = Inr st"
    by (simp add: addJoins_entry_path [OF assms(1-3)])
  show ?thesis using 1 2 3 by blast
qed

theorem subquery_one_to_many_dropped_witness:
  "addWhereClauses demo_env True
     (JObj [(''articles'', JObj [(''title'', JObj [(''_eq'', JStr ''x'')])])]) ''authors'' LAnd
     \<lparr>builder = empty_qb, aliasMap = [], drawn = 0\<rparr> =
     Inr \<lparr>builder = empty_qb, aliasMap = [], drawn = 0\<rparr> \<and>
   addJoins_entry demo_env True ''authors'' ''articles'' (JObj [(''title'', JObj [(''_eq'', JStr ''x'')])])
     \<lparr>builder = empty_qb, aliasMap = [], drawn = 0\<rparr> =
     Inr \<lparr>builder = QB [] None [] None None
                        [LeftJoin ''xviqp'' (Some ''articles'') ''authors.id'' ''xviqp.author''] [],
          aliasMap = [(''articles'', AObj [(''title'', AStr ''xviqp'')])], drawn = 1\<rparr>"
proof -
  let ?v = "JObj [(''title'', JObj [(''_eq'', JStr ''x'')])]"
  let ?st = "\<lparr>builder = empty_qb, aliasMap = [], drawn = 0\<rparr>"
  have 3: "getFilterPath ''articles'' ?v = Inr (''articles'' # [''title''])"
    by code_simp
  have 4: "getOperation ''articles'' ?v = Inr (''_eq'', JStr ''x'')"
    by code_simp
  have 5: "find_relation (relations (schema demo_env)) (Some ''authors'') (path_root ''articles'') =
             Some (demo_relations ! 0)"
    by code_simp
  have 6: "getRelationType (demo_relations ! 0) (Some ''authors'') (path_root ''articles'') = Some O2M"
    by code_simp
  have 7: "primary_of demo_env (rel_related_collection (demo_relations ! 0)) = Inr ''id''"
    by code_simp
  have 8: "''xviqp'' = generateAlias demo_env (drawn ?st)"
    by code_simp
  have e: "addWhereClauses demo_env True (JObj ([] @ [])) ''authors'' LAnd ?st = Inr ?st"
    by code_simp
  have fol: "followRelation demo_env True [''title''] (Some (rel_collection (demo_relations ! 0))) (Some ''xviqp'')
                (?st\<lparr>builder := knex_leftJoin
                                  (LeftJoin ''xviqp'' (Some (rel_collection (demo_relations ! 0))) (dotted ''authors'' ''id'')
                                     (dotted ''xviqp'' (rel_field (demo_relations ! 0)))) (builder ?st),
                    aliasMap := lodash_set (aliasMap ?st) (''articles'' # [''title'']) ''xviqp'',
                    drawn := Suc (drawn ?st)\<rparr>) =
             Inr \<lparr>builder = QB [] None [] None None
                        [LeftJoin ''xviqp'' (Some ''articles'') ''authors.id'' ''xviqp.author''] [],
          aliasMap = [(''articles'', AObj [(''title'', AStr ''xviqp'')])], drawn = 1\<rparr>"
    by code_simp
  show ?thesis
    using subquery_one_to_many_dropped [OF _ _ 3 4 5 6 7 8, where pre = "[]" and post = "[]" and lg = LAnd and st' = ?st] e fol
    by simp
qed

section \<open>Many-to-any without a scope\<close>




section \<open>The membership operators\<close>

text \<open>
  Every operator that \<^verbatim>\<open>getOperation\<close> returns starts with an underscore, so the
  cases \<^verbatim>\<open>in\<close> and \<^verbatim>\<open>nin\<close> of the operator table are never reached from a
  filter.
\<close>

lemma getOperation_operator_underscore:
  "getOperation key v = Inr (operator, operand) \<Longrightarrow> startsWith_underscore operator"
proof (induction key v rule: getOperation.induct)
  case (1 key v)
  show ?case
  proof (cases "startsWith_underscore key \<and> key \<noteq> ''_and'' \<and> key \<noteq> ''_or''")
    case True
    with "1.prems" have "operator = key"
      by (subst (asm) getOperation.simps) (simp del: getOperation.simps)
    with True show ?thesis by simp
  next
    case False
    show ?thesis
    proof (cases "\<exists>k v' kvs. v = JObj ((k, v') # kvs)")
      case True
      then obtain k v' kvs where v: "v = JObj ((k, v') # kvs)" by blast
      with "1.prems" False have "getOperation k v' = Inr (operator, operand)"
        by (subst (asm) getOperation.simps) (simp del: getOperation.simps)
      with "1.IH" [OF False v] show ?thesis by simp
    next
      case no: False
      have "getOperation key v =
              (case v of
                 JObj [] \<Rightarrow> Inl TypeError
               | JObj ((k, v') # kvs) \<Rightarrow> getOperation k v'
               | _ \<Rightarrow> Inr (''_eq'', v))"
        using False by (subst getOperation.simps) (auto simp del: getOperation.simps)
      with no have "getOperation key v = Inl TypeError \<or> getOperation key v = Inr (''_eq'', v)"
        by (cases v) (auto simp del: getOperation.simps split: list.splits)
      with "1.prems" show ?thesis by (auto simp: startsWith_underscore_def)
    qed
  qed
qed

lemma membership_case_unreachable:
  "getOperation key v \<noteq> Inr (''in'', operand) \<and> getOperation key v \<noteq> Inr (''nin'', operand)"
  using getOperation_operator_underscore [of key v "''in''" operand]
    getOperation_operator_underscore [of key v "''nin''" operand]
  by (auto simp: startsWith_underscore_def)

text \<open>
  Claim C3 against the code: the second \<^verbatim>\<open>switch\<close> spells the membership
  operators \<^verbatim>\<open>in\<close> and \<^verbatim>\<open>nin\<close>, without the underscore every other operator
  has (and that \<^verbatim>\<open>processO2M\<close> writes: \<^verbatim>\<open>_in\<close>, \<^verbatim>\<open>_nin\<close>). Through
  \<^verbatim>\<open>applyFilter\<close> the key \<^verbatim>\<open>in\<close> is taken for a field, which makes the path
  \<^verbatim>\<open>title.in\<close> and raises on the plain field; the key \<^verbatim>\<open>_in\<close> reaches the
  operator table and matches no case. Only a direct call of \<^verbatim>\<open>applyFilterToQuery\<close>
  with the operator \<^verbatim>\<open>in\<close> emits the membership predicate.
\<close>

theorem membership_operator_unreachable:
  "applyFilter demo_env empty_qb
     (JObj [(''title'', JObj [(''in'', JArr [JNum 1, JUndefined, JNum 2])])]) ''articles'' False 0 =
     Inl (InvalidQueryException (NotRelational ''articles'' ''title'')) \<and>
   applyFilter demo_env empty_qb
     (JObj [(''title'', JObj [(''_in'', JArr [JNum 1, JUndefined, JNum 2])])]) ''articles'' False 0 =
     Inr (empty_qb, 0) \<and>
   applyFilterToQuery demo_env empty_qb ''articles.title'' ''in''
     (JArr [JNum 1, JUndefined, JNum 2]) LAnd =
     Inr (QB [] None [] None None [] [Where LAnd (WhereIn ''articles.title'' [JNum 1, JNum 2])])"
  by code_simp

section \<open>The exceptions of the compiler\<close>

lemma nf_Inr [simp]: "no_forbidden (Inr x)"
  by (simp add: no_forbidden_def)

lemma nf_Inl [simp]: "no_forbidden (Inl e) = (e \<noteq> ForbiddenException)"
  by (simp add: no_forbidden_def)

lemma nf_bindE:
  "no_forbidden r \<Longrightarrow> (\<And>x. r = Inr x \<Longrightarrow> no_forbidden (f x)) \<Longrightarrow> no_forbidden (bindE r f)"
  by (cases r) (simp_all add: bindE_def)

lemma nf_foldE:
  "(\<And>x s. x \<in> set xs \<Longrightarrow> no_forbidden (f x s)) \<Longrightarrow> no_forbidden (foldE f xs s)"
proof (induction xs arbitrary: s)
  case Nil
  then show ?case by simp
next
  case (Cons x xs)
  then have "no_forbidden (f x s)" by simp
  with Cons show ?case by (cases "f x s") auto
qed

lemma nf_entries: "no_forbidden (entries v)"
  by (cases v) simp_all

lemma nf_some_empty: "no_forbidden (some_empty xs)"
proof (induction xs)
  case Nil
  then show ?case by simp
next
  case (Cons x xs)
  then show ?case using nf_entries [of x] by (cases "entries x") auto
qed

lemma nf_short_circuit: "no_forbidden (short_circuit key v)"
  by (simp add: short_circuit_def value_some_empty_def nf_some_empty split: json.splits)

lemma nf_getFilterPath: "no_forbidden (getFilterPath key v)"
  by (induction key v rule: getFilterPath.induct) (auto intro: nf_bindE)

lemma nf_getOperation: "no_forbidden (getOperation key v)"
proof (induction key v rule: getOperation.induct)
  case (1 key v)
  then show ?case by (auto split: json.splits list.splits)
qed

lemma nf_primary_of: "no_forbidden (primary_of E c)"
  by (simp add: primary_of_def split: option.splits)

lemma nf_parent_of: "no_forbidden (parent_of r t part)"
  by (simp add: parent_of_def split: option.splits)

lemma nf_join:
  "no_forbidden (join_m2o E r pc pa a st)"
  "no_forbidden (join_m2a E r part pc pa a st)"
  "no_forbidden (join_o2m E r pc pa a st)"
  by (auto simp: join_m2o_def join_m2a_def join_o2m_def split: option.splits
      intro!: nf_bindE nf_primary_of)

lemma nf_if: "(c \<Longrightarrow> no_forbidden a) \<Longrightarrow> (\<not> c \<Longrightarrow> no_forbidden b) \<Longrightarrow> no_forbidden (if c then a else b)"
  by simp

lemma nf_case_option:
  "(x = None \<Longrightarrow> no_forbidden a) \<Longrightarrow> (\<And>y. x = Some y \<Longrightarrow> no_forbidden (f y)) \<Longrightarrow>
     no_forbidden (case x of None \<Rightarrow> a | Some y \<Rightarrow> f y)"
  by (cases x) simp_all

lemma nf_case_list:
  "(xs = [] \<Longrightarrow> no_forbidden a) \<Longrightarrow> (\<And>y ys. xs = y # ys \<Longrightarrow> no_forbidden (f y ys)) \<Longrightarrow>
     no_forbidden (case xs of [] \<Rightarrow> a | y # ys \<Rightarrow> f y ys)"
  by (cases xs) simp_all

lemma nf_case_prod:
  "(\<And>a b. p = (a, b) \<Longrightarrow> no_forbidden (f a b)) \<Longrightarrow> no_forbidden (case p of (a, b) \<Rightarrow> f a b)"
  by (cases p) simp

lemma nf_followRelation: "no_forbidden (followRelation E subQuery path pc pa st)"
proof (induction path arbitrary: pc pa st)
  case Nil
  then show ?case by simp
next
  case (Cons part rest)
  show ?case
    unfolding followRelation.simps Let_def
    by (intro nf_case_option nf_bindE nf_if nf_join nf_parent_of Cons.IH nf_Inr)
qed

lemma nf_getWhereColumn: "no_forbidden (getWhereColumn E am path c a)"
proof (induction path arbitrary: c a)
  case Nil
  then show ?case by simp
next
  case (Cons part rest)
  show ?case
    unfolding getWhereColumn.simps Let_def
    by (intro nf_case_option nf_case_list nf_bindE nf_parent_of Cons.IH nf_Inr) simp
qed

lemma nf_addJoins:
  "no_forbidden (addJoins E subQuery fltr collection st)"
  "no_forbidden (addJoins_entry E subQuery collection key v st)"
proof (induction E subQuery fltr collection st and E subQuery collection key v st
    rule: addJoins_addJoins_entry.induct)
  case (1 E subQuery fltr collection st)
  show ?case
    unfolding addJoins.simps [of E subQuery fltr collection st]
    by (rule nf_bindE [OF nf_entries], rule nf_foldE) (auto dest: 1)
next
  case (2 E subQuery collection key v st)
  have sub: "no_forbidden
      (case v of JArr subs \<Rightarrow> foldE (\<lambda>subFilter st. addJoins E subQuery subFilter collection st) subs st
       | _ \<Rightarrow> Inl TypeError)"
    if "key = ''_or'' \<or> key = ''_and''" and "short_circuit key v = Inr False"
    using that by (cases v) (auto intro!: nf_foldE 2)
  show ?case
    unfolding addJoins_entry.simps [of E subQuery collection key v st] addJoin_def
    by (intro nf_bindE nf_if nf_short_circuit nf_getFilterPath nf_followRelation nf_Inr sub)
       simp_all
qed

lemma nf_applyFilterToQuery: "no_forbidden (applyFilterToQuery E q key operator v lg)"
  by (simp add: applyFilterToQuery_def Let_def operator_with_value_def bindE_def)

lemma nf_apply_predicate: "no_forbidden (apply_predicate E column operator v lg st)"
  unfolding apply_predicate_def by (intro nf_bindE nf_applyFilterToQuery nf_Inr)

lemma nf_addWhereClauses_entry:
  "no_forbidden (addWhereClauses_entry E subQuery collection lg key v st)"
  unfolding addWhereClauses_entry.simps [of E subQuery collection lg key v st] Let_def
  by (intro nf_bindE nf_if nf_case_list nf_case_prod nf_case_option nf_short_circuit
      nf_getFilterPath nf_getOperation nf_getWhereColumn nf_primary_of nf_apply_predicate nf_Inr)
     simp_all

lemma nf_addWhereClauses: "no_forbidden (addWhereClauses E subQuery fltr collection lg st)"
  unfolding addWhereClauses.simps [of E subQuery fltr collection lg st]
  by (rule nf_bindE [OF nf_entries], rule nf_foldE) (auto simp: nf_addWhereClauses_entry)

lemma nf_applyFilter: "no_forbidden (applyFilter E rootQuery rootFilter collection subQuery n)"
  unfolding applyFilter.simps [of E rootQuery rootFilter collection subQuery n]
  by (intro nf_bindE nf_addJoins nf_addWhereClauses nf_Inr)

lemma nf_applyQuery: "no_forbidden (applyQuery E collection dbQuery q subQuery n)"
  unfolding applyQuery.simps [of E collection dbQuery q subQuery n] Let_def
  by (intro nf_bindE nf_if nf_case_prod nf_applyFilter nf_Inr)


lemma whs_errors_append: "whs_errors (xs @ ys) = whs_errors xs @ whs_errors ys"
  by (induction xs) simp_all

lemma qb_ok_knex_where:
  "qb_ok (knex_where w q) = (qb_ok q \<and> ForbiddenException \<notin> set (wh_errors w))"
  by (cases q) (auto simp: qb_ok_def knex_where_def whs_errors_append)

lemma qb_ok_knex [simp]:
  "qb_ok (knex_leftJoin j q) = qb_ok q"
  "qb_ok (knex_limit l q) = qb_ok q"
  "qb_ok (knex_offset l q) = qb_ok q"
  "qb_ok (knex_orderBy cs q) = qb_ok q"
  "qb_ok empty_qb"
  by (cases q; simp add: qb_ok_def knex_leftJoin_def knex_limit_def knex_offset_def knex_orderBy_def
      empty_qb_def)+

lemma qb_ok_subquery_base [simp]: "qb_ok (subquery_base r)"
  by (simp add: subquery_base_def qb_ok_def knex_from_def knex_select_def empty_qb_def)

lemma qb_ok_add_predicate [simp]: "qb_ok (add_predicate lg p q) = qb_ok q"
  by (cases p) (simp_all add: add_predicate_def qb_ok_knex_where)

lemma qb_ok_applyFilterToQuery:
  "applyFilterToQuery E q key operator v lg = Inr q' \<Longrightarrow> qb_ok q' = qb_ok q"
  by (auto simp: applyFilterToQuery_def Let_def bindE_def split: if_splits sum.splits)

lemma search_field_errors: "whs_errors (concat (map (search_field E s c) fs)) = []"
  by (induction fs) (auto simp: search_field_def whs_errors_append split: option.splits)

lemma qb_ok_paging [simp]:
  "qb_ok (apply_page q dbQuery) = qb_ok dbQuery"
  "qb_ok (apply_offset q dbQuery) = qb_ok dbQuery"
  "qb_ok (apply_limit q dbQuery) = qb_ok dbQuery"
  "qb_ok (apply_sort c q dbQuery) = qb_ok dbQuery"
  "qb_ok (apply_search E c q dbQuery) = qb_ok dbQuery"
  by (auto simp: apply_page_def apply_offset_def apply_limit_def apply_sort_def apply_search_def
      applySearch_def qb_ok_knex_where search_field_errors split: option.splits)

lemma so_Inr [simp]: "state_ok (Inr st) = qb_ok (builder st)"
  by (simp add: state_ok_def)

lemma so_Inl [simp]: "state_ok (Inl e) = (e \<noteq> ForbiddenException)"
  by (simp add: state_ok_def)

lemma so_bindE_nf:
  "no_forbidden r \<Longrightarrow> (\<And>x. r = Inr x \<Longrightarrow> state_ok (f x)) \<Longrightarrow> state_ok (bindE r f)"
  by (cases r) (simp_all add: bindE_def)

lemma so_bindE:
  "state_ok r \<Longrightarrow> (\<And>x. r = Inr x \<Longrightarrow> qb_ok (builder x) \<Longrightarrow> state_ok (f x)) \<Longrightarrow>
     state_ok (bindE r f)"
  by (cases r) (simp_all add: bindE_def)

lemma so_foldE:
  "qb_ok (builder s) \<Longrightarrow> (\<And>x s. x \<in> set xs \<Longrightarrow> qb_ok (builder s) \<Longrightarrow> state_ok (f x s)) \<Longrightarrow>
     state_ok (foldE f xs s)"
proof (induction xs arbitrary: s)
  case Nil
  then show ?case by simp
next
  case (Cons x xs)
  then have "state_ok (f x s)" by simp
  with Cons show ?case by (cases "f x s") auto
qed

lemma so_if: "(c \<Longrightarrow> state_ok a) \<Longrightarrow> (\<not> c \<Longrightarrow> state_ok b) \<Longrightarrow> state_ok (if c then a else b)"
  by simp

lemma so_case_option:
  "(x = None \<Longrightarrow> state_ok a) \<Longrightarrow> (\<And>y. x = Some y \<Longrightarrow> state_ok (f y)) \<Longrightarrow>
     state_ok (case x of None \<Rightarrow> a | Some y \<Rightarrow> f y)"
  by (cases x) simp_all

lemma so_case_list:
  "(xs = [] \<Longrightarrow> state_ok a) \<Longrightarrow> (\<And>y ys. xs = y # ys \<Longrightarrow> state_ok (f y ys)) \<Longrightarrow>
     state_ok (case xs of [] \<Rightarrow> a | y # ys \<Rightarrow> f y ys)"
  by (cases xs) simp_all

lemma so_case_prod:
  "(\<And>a b. p = (a, b) \<Longrightarrow> state_ok (f a b)) \<Longrightarrow> state_ok (case p of (a, b) \<Rightarrow> f a b)"
  by (cases p) simp

lemma so_join:
  assumes "qb_ok (builder st)"
  shows "state_ok (join_m2o E r pc pa a st)"
    and "state_ok (join_m2a E r part pc pa a st)"
    and "state_ok (join_o2m E r pc pa a st)"
  using assms
  by (auto simp: join_m2o_def join_m2a_def join_o2m_def leftJoin_def primary_of_def bindE_def
      split: option.splits)

lemma so_followRelation:
  "qb_ok (builder st) \<Longrightarrow> state_ok (followRelation E subQuery path pc pa st)"
proof (induction path arbitrary: pc pa st)
  case Nil
  then show ?case by simp
next
  case (Cons part rest)
  show ?case
    unfolding followRelation.simps Let_def
    by (intro so_case_option so_bindE so_bindE_nf so_if so_join nf_parent_of Cons.IH)
       (simp_all add: Cons.prems)
qed

lemma so_addJoins:
  "qb_ok (builder st) \<Longrightarrow> state_ok (addJoins E subQuery fltr collection st)"
  "qb_ok (builder st) \<Longrightarrow> state_ok (addJoins_entry E subQuery collection key v st)"
proof (induction E subQuery fltr collection st and E subQuery collection key v st
    rule: addJoins_addJoins_entry.induct)
  case (1 E subQuery fltr collection st)
  show ?case
    unfolding addJoins.simps [of E subQuery fltr collection st]
    by (rule so_bindE_nf [OF nf_entries], rule so_foldE) (auto intro: "1.IH" simp: "1.prems")
next
  case (2 E subQuery collection key v st)
  have sub: "state_ok
      (case v of JArr subs \<Rightarrow> foldE (\<lambda>subFilter st. addJoins E subQuery subFilter collection st) subs st
       | _ \<Rightarrow> Inl TypeError)"
    if "key = ''_or'' \<or> key = ''_and''" and "short_circuit key v = Inr False"
    using that "2.prems" by (cases v) (auto intro!: so_foldE "2.IH")
  show ?case
    unfolding addJoins_entry.simps [of E subQuery collection key v st] addJoin_def
    by (intro so_bindE_nf so_if nf_short_circuit nf_getFilterPath so_followRelation sub)
       (simp_all add: "2.prems")
qed


lemma po_Inr [simp]: "pair_ok (Inr (q, n)) = qb_ok q"
  by (simp add: pair_ok_def)

lemma po_Inl [simp]: "pair_ok (Inl e) = (e \<noteq> ForbiddenException)"
  by (simp add: pair_ok_def)

lemma po_bindE_state:
  "state_ok r \<Longrightarrow> (\<And>x. r = Inr x \<Longrightarrow> qb_ok (builder x) \<Longrightarrow> pair_ok (f x)) \<Longrightarrow>
     pair_ok (bindE r f)"
  by (cases r) (simp_all add: bindE_def)

lemma po_bindE_pair:
  "pair_ok r \<Longrightarrow> (\<And>a b. r = Inr (a, b) \<Longrightarrow> qb_ok a \<Longrightarrow> pair_ok (f (a, b))) \<Longrightarrow>
     pair_ok (bindE r f)"
  by (cases r) (auto simp: bindE_def)

lemma qb_ok_wheres [simp]:
  "(ForbiddenException \<in> set (whs_errors (qb_wheres q))) = (\<not> qb_ok q)"
  "(ForbiddenException \<in> set (qb_errors q)) = (\<not> qb_ok q)"
  by (cases q; simp add: qb_ok_def)+

lemma so_where_wrapped:
  "qb_ok (builder st) \<Longrightarrow> state_ok inner \<Longrightarrow> qb_ok (builder (where_wrapped lg st inner))"
  by (cases inner) (simp_all add: where_wrapped_def qb_ok_knex_where)

lemma so_where_in_sub:
  "qb_ok (builder st) \<Longrightarrow> pair_ok inner \<Longrightarrow> qb_ok (builder (where_in_sub lg c st inner))"
  by (cases inner) (auto simp: where_in_sub_def qb_ok_knex_where)

lemma so_apply_predicate:
  "qb_ok (builder st) \<Longrightarrow> state_ok (apply_predicate E column operator v lg st)"
  unfolding apply_predicate_def
  by (rule so_bindE_nf [OF nf_applyFilterToQuery]) (simp add: qb_ok_applyFilterToQuery)

lemma so_where:
  "qb_ok (builder st) \<Longrightarrow> state_ok (addWhereClauses E subQuery fltr collection lg st)"
  "qb_ok (builder st) \<Longrightarrow> state_ok (addWhereClauses_entry E subQuery collection lg key v st)"
  "qb_ok rootQuery \<Longrightarrow> pair_ok (applyFilter E rootQuery rootFilter collection subQuery n)"
  "qb_ok dbQuery \<Longrightarrow> pair_ok (applyQuery E collection dbQuery q subQuery n)"
proof (induction E subQuery fltr collection lg st and E subQuery collection lg key v st
    and E rootQuery rootFilter collection subQuery n and E collection dbQuery q subQuery n
    rule: addWhereClauses_addWhereClauses_entry_applyFilter_applyQuery.induct)
  case (1 E subQuery fltr collection lg st)
  show ?case
    unfolding addWhereClauses.simps [of E subQuery fltr collection lg st]
    by (rule so_bindE_nf [OF nf_entries], rule so_foldE) (auto intro: "1.IH" simp: "1.prems")
next
  case (2 E subQuery collection lg key v st)
  have grp: "state_ok
      (case v of
         JArr subs \<Rightarrow>
           foldE (\<lambda>subFilter s. addWhereClauses E subQuery subFilter collection
                                   (if key = ''_and'' then LAnd else LOr) s)
             subs (st\<lparr>builder := empty_qb\<rparr>)
       | _ \<Rightarrow> Inl TypeError)"
    if k: "key = ''_or'' \<or> key = ''_and''" and sc: "short_circuit key v = Inr False"
  proof (cases v)
    case (JArr subs)
    have "state_ok
        (foldE (\<lambda>subFilter s. addWhereClauses E subQuery subFilter collection
                                 (if key = ''_and'' then LAnd else LOr) s)
           subs (st\<lparr>builder := empty_qb\<rparr>))"
    proof (rule so_foldE)
      show "qb_ok (builder (st\<lparr>builder := empty_qb\<rparr>))" by simp
    next
      fix x and s :: pass_state
      assume "x \<in> set subs" and "qb_ok (builder s)"
      then show "state_ok (addWhereClauses E subQuery x collection
                             (if key = ''_and'' then LAnd else LOr) s)"
        using "2.IH"(1) [OF k sc _ JArr] by simp
    qed
    with JArr show ?thesis by simp
  qed simp_all
  have wrapped: "qb_ok (builder (where_wrapped lg st
      (case v of
         JArr subs \<Rightarrow>
           foldE (\<lambda>subFilter s. addWhereClauses E subQuery subFilter collection
                                   (if key = ''_and'' then LAnd else LOr) s)
             subs (st\<lparr>builder := empty_qb\<rparr>)
       | _ \<Rightarrow> Inl TypeError)))"
    if "key = ''_or'' \<or> key = ''_and''" and "short_circuit key v = Inr False"
    using grp [OF that] "2.prems" by (rule so_where_wrapped [rotated])
  have sub: "qb_ok (builder (where_in_sub lg (dotted collection pk) st
      (applyQuery E (rel_collection r) (subquery_base r) (filter_only v) True (drawn st))))"
    if "\<not> (key = ''_or'' \<or> key = ''_and'')" and "getFilterPath key v = Inr fp"
      and "fp = part # rest" and "getOperation key v = Inr opv"
      and "\<not> ((case find_relation (relations (schema E)) (Some collection) (path_root part) of
                 None \<Rightarrow> None
               | Some r \<Rightarrow> getRelationType r (Some collection) (path_root part)) = Some M2O \<or>
              (case find_relation (relations (schema E)) (Some collection) (path_root part) of
                 None \<Rightarrow> None
               | Some r \<Rightarrow> getRelationType r (Some collection) (path_root part)) = Some M2A \<or>
              (case find_relation (relations (schema E)) (Some collection) (path_root part) of
                 None \<Rightarrow> None
               | Some r \<Rightarrow> getRelationType r (Some collection) (path_root part)) = None)"
      and "\<not> subQuery"
      and "find_relation (relations (schema E)) (Some collection) (path_root part) = Some r"
      and "primary_of E (rel_related_collection r) = Inr pk"
    for fp part rest opv r pk
  proof -
    have "(fst opv, snd opv) = opv" by simp
    from "2.IH"(2) [OF that(1,2,3) refl that(4) this refl that(5,6,7,8)]
    have "pair_ok (applyQuery E (rel_collection r) (subquery_base r) (filter_only v) True (drawn st))"
      by simp
    with "2.prems" show ?thesis by (rule so_where_in_sub)
  qed
  show ?case
    unfolding addWhereClauses_entry.simps [of E subQuery collection lg key v st] Let_def
    by (intro so_bindE_nf so_if so_case_list so_case_prod so_case_option nf_short_circuit
        nf_getFilterPath nf_getOperation nf_getWhereColumn nf_primary_of so_apply_predicate)
       (simp_all add: wrapped sub "2.prems")
next
  case (3 E rootQuery rootFilter collection subQuery n)
  show ?case
    unfolding applyFilter.simps [of E rootQuery rootFilter collection subQuery n]
    by (intro po_bindE_state so_addJoins "3.IH") (simp_all add: "3.prems")
next
  case (4 E collection dbQuery q subQuery n)
  show ?case
    unfolding applyQuery.simps [of E collection dbQuery q subQuery n] Let_def
    by (rule po_bindE_pair) (auto intro!: "4.IH" simp: "4.prems")
qed

section \<open>Nested writes and \<^verbatim>\<open>Forbidden\<close>\<close>

lemma o2m_item_missing:
  assumes "is_primary_key x" and "select_first sv db (rel_collection r) pkf x = Inr None"
  shows "o2m_item sv db r pkf parent current x acc = Inl ForbiddenException"
  using assms by (cases acc) (simp add: o2m_item_def bindE_def)

lemma o2m_item_cases:
  assumes "\<forall>e. select_first sv db (rel_collection r) pkf y \<noteq> Inl e"
  shows "o2m_item sv db r pkf parent current y acc = Inl ForbiddenException \<or>
         (\<exists>acc'. o2m_item sv db r pkf parent current y acc = Inr acc')"
  using assms
  by (cases acc; cases "select_first sv db (rel_collection r) pkf y")
     (auto simp: o2m_item_def bindE_def split: option.splits)

lemma o2m_items_forbidden:
  assumes "x \<in> set items" and "is_primary_key x"
    and "select_first sv db (rel_collection r) pkf x = Inr None"
    and "\<forall>y \<in> set items. \<forall>e. select_first sv db (rel_collection r) pkf y \<noteq> Inl e"
  shows "foldE (o2m_item sv db r pkf parent current) items acc = Inl ForbiddenException"
  using assms
proof (induction items arbitrary: acc)
  case Nil
  then show ?case by simp
next
  case (Cons y ys)
  show ?case
  proof (cases "y = x")
    case True
    with Cons.prems show ?thesis by (simp add: o2m_item_missing)
  next
    case False
    with Cons.prems have x: "x \<in> set ys" by simp
    from Cons.prems have "\<forall>e. select_first sv db (rel_collection r) pkf y \<noteq> Inl e" by simp
    from o2m_item_cases [OF this, of parent current acc]
    show ?thesis
    proof
      assume "o2m_item sv db r pkf parent current y acc = Inl ForbiddenException"
      then show ?thesis by simp
    next
      assume "\<exists>acc'. o2m_item sv db r pkf parent current y acc = Inr acc'"
      then obtain acc' where "o2m_item sv db r pkf parent current y acc = Inr acc'" ..
      moreover have "foldE (o2m_item sv db r pkf parent current) ys acc' = Inl ForbiddenException"
        using Cons.IH [OF x] Cons.prems by simp
      ultimately show ?thesis by simp
    qed
  qed
qed

lemma relationsToProcess_member:
  assumes "r \<in> set (relationsToProcess sch collection payload)"
  shows "rel_related_collection r = Some collection \<and>
         (\<exists>m f. rel_meta r = Some m \<and> one_field m = Some f \<and> f \<in> fst ` set payload)"
  using assms
  by (auto simp: relationsToProcess_def meta_one_field_def split: option.splits)

text \<open>
  Claim C9: when \<^verbatim>\<open>processO2M\<close> reaches a relation whose nested value is an
  array (the relations before it processed, no lookup of the array failing in the
  database), and an entry of the array is a bare primary key (a string or a number) for
  which the related collection holds no record, it raises \<^verbatim>\<open>Forbidden\<close>. The
  compiler never does: \<^verbatim>\<open>applyQuery\<close> and \<^verbatim>\<open>applyFilter\<close> do not raise
  it, and on a builder whose callbacks do not raise it they leave a builder whose
  callbacks do not raise it either.
\<close>

theorem processO2M_forbidden:
  assumes "relationsToProcess sch collection payload = before @ r # after"
    and "foldE (o2m_relation sv sch payload parent) before ([], db) = Inr (revisions, db')"
    and "meta_one_field r = Some f" and "property payload f = JArr items"
    and "collections sch collection = Some currentInfo"
    and "collections sch (rel_collection r) = Some relatedInfo"
    and "x \<in> set items" and "is_primary_key x"
    and "select_first sv db' (rel_collection r) (primary relatedInfo) x = Inr None"
    and "\<forall>y \<in> set items. \<forall>e. select_first sv db' (rel_collection r) (primary relatedInfo) y \<noteq> Inl e"
  shows "processO2M sv sch collection payload parent db = Inl ForbiddenException \<and>
         applyQuery E c dbQuery q subQuery n \<noteq> Inl ForbiddenException \<and>
         applyFilter E dbQuery fltr c subQuery n \<noteq> Inl ForbiddenException \<and>
         (qb_ok dbQuery \<longrightarrow>
            pair_ok (applyQuery E c dbQuery q subQuery n) \<and>
            pair_ok (applyFilter E dbQuery fltr c subQuery n))"
proof -
  have "r \<in> set (relationsToProcess sch collection payload)"
    using assms(1) by simp
  from relationsToProcess_member [OF this] assms(3)
  obtain m where m: "rel_related_collection r = Some collection" "rel_meta r = Some m"
    "one_field m = Some f"
    by (auto simp: meta_one_field_def)
  have "foldE (o2m_item sv db' r (primary relatedInfo) parent (property payload (primary currentInfo)))
          items ([], []) = Inl ForbiddenException"
    using assms(7-10) by (rule o2m_items_forbidden)
  then have "o2m_relation sv sch payload parent r (revisions, db') = Inl ForbiddenException"
    using m assms(4-6)
    by (simp add: o2m_relation_def o2m_array_def bindE_def collection_string_def)
  then have "processO2M sv sch collection payload parent db = Inl ForbiddenException"
    using assms(1,2) by (simp add: processO2M_def foldE_append bindE_def)
  then show ?thesis
    using nf_applyQuery [of E c dbQuery q subQuery n] nf_applyFilter [of E dbQuery fltr c subQuery n]
      so_where(3,4)
    by (simp add: no_forbidden_def)
qed

theorem processO2M_forbidden_witness:
  "JNum 99 \<in> set [JNum 1, JNum 99] \<and>
   processO2M demo_services demo_schema ''authors''
     [(''id'', JNum 7), (''articles'', JArr [JNum 1, JNum 99])] (JNum 7) demo_rows =
     Inl ForbiddenException \<and>
   applyFilter demo_env empty_qb (JObj [(''title'', JObj [(''_eq'', JStr ''x'')])]) ''articles'' False 0
     \<noteq> Inl ForbiddenException"
proof -
  let ?payload = "[(''id'', JNum 7), (''articles'', JArr [JNum 1, JNum 99])]"
  have 1: "relationsToProcess demo_schema ''authors'' ?payload = [] @ (demo_relations ! 0) # []"
    by code_simp
  have 2: "foldE (o2m_relation demo_services demo_schema ?payload (JNum 7)) [] ([], demo_rows) =
             Inr ([], demo_rows)"
    by simp
  have 3: "meta_one_field (demo_relations ! 0) = Some ''articles''"
    by code_simp
  have 4: "property ?payload ''articles'' = JArr [JNum 1, JNum 99]"
    by code_simp
  have 5: "collections demo_schema ''authors'' =
             Some \<lparr>primary = ''id'', coll_fields = [(''id'', ''integer''), (''name'', ''string'')]\<rparr>"
    by code_simp
  have 6: "collections demo_schema (rel_collection (demo_relations ! 0)) =
             Some \<lparr>primary = ''id'',
                   coll_fields = [(''id'', ''integer''), (''title'', ''string''), (''author'', ''integer'')]\<rparr>"
    by code_simp
  have 7: "JNum 99 \<in> set [JNum 1, JNum 99]"
    by simp
  have 8: "is_primary_key (JNum 99)"
    by code_simp
  have 9: "select_first demo_services demo_rows (rel_collection (demo_relations ! 0))
             (primary \<lparr>primary = ''id'',
                   coll_fields = [(''id'', ''integer''), (''title'', ''string''), (''author'', ''integer'')]\<rparr>)
             (JNum 99) = Inr None"
    by code_simp
  have 10: "\<forall>y \<in> set [JNum 1, JNum 99]. \<forall>e.
              select_first demo_services demo_rows (rel_collection (demo_relations ! 0))
                (primary \<lparr>primary = ''id'',
                   coll_fields = [(''id'', ''integer''), (''title'', ''string''), (''author'', ''integer'')]\<rparr>) y
                \<noteq> Inl e"
    by (simp add: demo_services_def)
  show ?thesis
    using processO2M_forbidden [OF 1 2 3 4 5 6 7 8 9 10, where E = demo_env
        and dbQuery = empty_qb and fltr = "JObj [(''title'', JObj [(''_eq'', JStr ''x'')])]"
        and c = "''articles''" and subQuery = False and n = 0]
    by simp
qed

end
